theory Spec2Isabelle
  imports Complex_Main "HOL-Library.Word"
begin

section \<open>Data model of the control module\<close>

text \<open>
  The control module (control.c) keeps its state in file-level statics. The C \<open>float\<close>
  values are modelled as \<open>real\<close>: rounding, infinities and NaN are outside this model.
  The declarations of control.h are not part of the sources at hand; the records below
  carry exactly the fields that control.c reads and writes.
\<close>

datatype Flight_Mode =
    FLIGHTMODE_DISARMED
  | FLIGTMODE_DIRECT_PWM
  | FLIGHTMODE_DIRECT_CONTROL
  | FLIGHTMODE_RATE
  | FLIGHTMODE_ATTITUDE
  | FLIGHTMODE_VELOCITY
  | FLIGHTMODE_POSITION

datatype Arming_Stick_Direction =
    STICK_NONE
  | STICK_PITCH_MIN
  | STICK_PITCH_MAX
  | STICK_ROLL_MIN
  | STICK_ROLL_MAX
  | STICK_YAW_MIN
  | STICK_YAW_MAX

datatype Arming_Stick_Region = STICK_NO_REGION | STICK_ARM_REGION | STICK_DISARM_REGION

datatype Input_Role_Selector = ROLE_THROTTLE | ROLE_PITCH | ROLE_ROLL | ROLE_YAW | ROLE_AUX1

record vector3f_t =
  vec_x :: real
  vec_y :: real
  vec_z :: real

record quaternion_t =
  q0 :: real
  q1 :: real
  q2 :: real
  q3 :: real

record Actuator_Desired =
  throttle :: real
  pitch :: real
  roll :: real
  yaw :: real

record Control_Reference =
  mode :: Flight_Mode
  attitude_reference :: vector3f_t
  rate_reference :: vector3f_t
  actuator_desired :: Actuator_Desired
  pwm_out :: "real list"

text \<open>
  The two times of the arm settings are whole seconds; \<open>ControlInit\<close> assigns them the
  integers 5 and 30 and the arming thread compares them with an integer quotient.
\<close>

record Control_Arm_Settings =
  stick_threshold :: real
  armed_min_throttle :: real
  stick_direction :: Arming_Stick_Direction
  arm_stick_time :: nat
  arm_zero_throttle_timeout :: nat

text \<open>
  \<open>Control_Limits\<close> nests three small structs (\<open>max_angle\<close>, \<open>max_rate\<close>,
  \<open>max_rate_attitude\<close>); the fields are flattened, \<open>max_rate_attitude.pitch\<close> becoming
  \<open>max_rate_attitude_pitch\<close>.
\<close>

record Control_Limits =
  max_angle_pitch :: real
  max_angle_roll :: real
  max_rate_pitch :: real
  max_rate_roll :: real
  max_rate_yaw :: real
  max_rate_attitude_pitch :: real
  max_rate_attitude_roll :: real

record Output_Mixer =
  weights :: "real list list"

text \<open>
  A PI controller record (\<open>PI_Data\<close>) and its parameter record (\<open>PI_Parameters\<close>) are
  seen the way the accessors of control.c see them: as arrays of floats, of which the
  first three are the parameters. \<open>Control_Data\<close> and \<open>Control_Parameters\<close> are seen as
  the arrays of controller records that the accessors cast them to.
\<close>

type_synonym PI_Data = "real list"
type_synonym PI_Parameters = "real list"
type_synonym Control_Data = "PI_Data list"
type_synonym Control_Parameters = "PI_Parameters list"

text \<open>
  \<open>fPIUpdate\<close> is not part of the sources at hand. The stages take it as a parameter:
  from a controller record, an error and a sampling time it gives the control signal
  and the updated controller record.
\<close>

type_synonym PI_Update = "PI_Data \<Rightarrow> real \<Rightarrow> real \<Rightarrow> real \<times> PI_Data"

text \<open>
  The statics of control.c, with the function-local statics of \<open>vRateControl\<close>
  (\<open>t1\<close>, \<open>t2\<close>, \<open>t3\<close>) and of \<open>vUpdateControlAction\<close> (\<open>i\<close>), and the calls
  received by the RC output driver (channel and relative width, in call order).
\<close>

record Control_State =
  control_reference :: Control_Reference
  control_data :: Control_Data
  arm_settings :: Control_Arm_Settings
  control_limits :: Control_Limits
  output_mixer :: Output_Mixer
  flash_save_control_parameters :: Control_Parameters
  controllers_armed :: bool
  rate_t1 :: real
  rate_t2 :: real
  rate_t3 :: real
  cycle_i :: int
  rc_output :: "(nat \<times> real) list"

text \<open>The local counters of the arming thread.\<close>

record Arm_Timers =
  arm_time :: "16 word"
  disarm_time :: "16 word"
  timeout_time :: "16 word"

text \<open>
  One snapshot of the RC input module: the result of \<open>bActiveRCInputConnection\<close> and of
  \<open>RCInputGetInputLevel\<close> for each role.
\<close>

record RC_Input =
  rc_active :: bool
  rc_level :: "Input_Role_Selector \<Rightarrow> real"

section \<open>Constants and helpers declared outside the sources at hand\<close>

text \<open>
  Modelled from the spec: \<open>bound\<close> (control.h) is missing. The spec writes the output
  stage as a bound of the sum into the interval from -1 to 1; control.c calls it with the
  upper limit first, then the lower limit, then the value.
\<close>

definition bound :: "real \<Rightarrow> real \<Rightarrow> real \<Rightarrow> real" where
  "bound max_v min_v v = (if v > max_v then max_v else if v < min_v then min_v else v)"

text \<open>
  Modelled from the spec: the macro \<open>DEG2RAD\<close> is missing; the spec names it the
  conversion from degrees to radians.
\<close>

definition DEG2RAD :: real where
  "DEG2RAD = pi / 180"

text \<open>
  Modelled from the spec: \<open>CONTROL_NUMBER_OF_CONTROLLERS\<close> and the declaration of
  \<open>Control_Data\<close> are missing. The cascade has the four PI blocks Position, Velocity,
  Attitude and Rate, each a vector controller on three axes, so the array of controllers
  has twelve entries; \<open>attitude_controller[k]\<close> and \<open>rate_controller[k]\<close> are the entries
  of the third and the fourth block.
\<close>

definition CONTROL_NUMBER_OF_CONTROLLERS :: nat where
  "CONTROL_NUMBER_OF_CONTROLLERS = 12"

definition attitude_controller :: "nat \<Rightarrow> nat" where
  "attitude_controller k = 6 + k"

definition rate_controller :: "nat \<Rightarrow> nat" where
  "rate_controller k = 9 + k"

text \<open>The functions \<open>atan2f\<close> and \<open>asinf\<close> of the C library, on reals.\<close>

definition atan2f :: "real \<Rightarrow> real \<Rightarrow> real" where
  "atan2f v u =
     (if 0 < u then arctan (v / u)
      else if u < 0 \<and> 0 \<le> v then arctan (v / u) + pi
      else if u < 0 then arctan (v / u) - pi
      else if 0 < v then pi / 2
      else if v < 0 then - (pi / 2)
      else 0)"

definition asinf :: "real \<Rightarrow> real" where
  "asinf v = arcsin v"

section \<open>The arming thread\<close>

text \<open>\<open>SticksInRegion\<close>: the region of the sticks for the configured gesture.\<close>

definition SticksInRegion :: "Control_Arm_Settings \<Rightarrow> RC_Input \<Rightarrow> Arming_Stick_Region" where
  "SticksInRegion settings rc =
     (let threshold = stick_threshold settings;
          level = rc_level rc ROLE_THROTTLE
      in if level \<le> threshold then
           (case (case stick_direction settings of
                    STICK_PITCH_MIN \<Rightarrow> Some (ROLE_PITCH, True)
                  | STICK_PITCH_MAX \<Rightarrow> Some (ROLE_PITCH, False)
                  | STICK_ROLL_MIN \<Rightarrow> Some (ROLE_ROLL, True)
                  | STICK_ROLL_MAX \<Rightarrow> Some (ROLE_ROLL, False)
                  | STICK_YAW_MIN \<Rightarrow> Some (ROLE_YAW, True)
                  | STICK_YAW_MAX \<Rightarrow> Some (ROLE_YAW, False)
                  | STICK_NONE \<Rightarrow> None) of
              None \<Rightarrow> STICK_NO_REGION
            | Some (sel, is_min) \<Rightarrow>
                (let threshold = 1 - 2 * threshold;
                     level = rc_level rc sel
                 in if is_min then
                      (if level \<le> - threshold then STICK_ARM_REGION
                       else if level \<ge> threshold then STICK_DISARM_REGION
                       else STICK_NO_REGION)
                    else
                      (if level \<ge> threshold then STICK_ARM_REGION
                       else if level \<le> - threshold then STICK_DISARM_REGION
                       else STICK_NO_REGION)))
         else STICK_NO_REGION)"

text \<open>
  One pass of the loop of \<open>ThreadControlArming\<close>, after the sleep. \<open>arm_rate\<close> is the
  macro \<open>ARM_RATE\<close> (ticks per second), which is missing and so a parameter. The counters
  are \<open>uint16_t\<close>; the division is the integer division of C on non-negative operands.
  The error LED is not modelled.
\<close>

definition ThreadControlArming_tick ::
  "nat \<Rightarrow> RC_Input \<Rightarrow> Control_State \<times> Arm_Timers \<Rightarrow> Control_State \<times> Arm_Timers" where
  "ThreadControlArming_tick arm_rate rc st =
     (let s = fst st; tm = snd st
      in if rc_active rc \<and> stick_direction (arm_settings s) \<noteq> STICK_NONE then
           (if rc_level rc ROLE_AUX1 < 1 / 2 then
              (s\<lparr>controllers_armed := False\<rparr>,
               tm\<lparr>arm_time := 0, disarm_time := 0, timeout_time := 0\<rparr>)
            else
              (let current_region = SticksInRegion (arm_settings s) rc
               in if current_region = STICK_ARM_REGION then
                    (if unat (arm_time tm) div arm_rate > arm_stick_time (arm_settings s) then
                       (s\<lparr>controllers_armed := True\<rparr>, tm)
                     else
                       (s, tm\<lparr>arm_time := arm_time tm + 1, disarm_time := 0,
                              timeout_time := 0\<rparr>))
                  else if current_region = STICK_DISARM_REGION then
                    (if unat (disarm_time tm) div arm_rate > arm_stick_time (arm_settings s) then
                       (s\<lparr>controllers_armed := False\<rparr>, tm)
                     else
                       (s, tm\<lparr>disarm_time := disarm_time tm + 1, arm_time := 0,
                              timeout_time := 0\<rparr>))
                  else
                    (let tm0 = tm\<lparr>arm_time := 0, disarm_time := 0\<rparr>
                     in if arm_zero_throttle_timeout (arm_settings s) \<noteq> 0 then
                          (if rc_level rc ROLE_THROTTLE \<le> stick_threshold (arm_settings s) then
                             (if unat (timeout_time tm0) div arm_rate
                                   > arm_zero_throttle_timeout (arm_settings s) then
                                (s\<lparr>controllers_armed := False\<rparr>, tm0)
                              else
                                (s, tm0\<lparr>timeout_time := timeout_time tm0 + 1, arm_time := 0,
                                        disarm_time := 0\<rparr>))
                           else (s, tm0\<lparr>timeout_time := 0\<rparr>))
                        else (s, tm0))))
         else (s\<lparr>controllers_armed := False\<rparr>, tm))"

text \<open>The loop of the thread over a finite run of ticks, one RC snapshot per tick.\<close>

fun arming_ticks ::
  "nat \<Rightarrow> RC_Input list \<Rightarrow> Control_State \<times> Arm_Timers \<Rightarrow> Control_State \<times> Arm_Timers" where
  "arming_ticks arm_rate [] st = st"
| "arming_ticks arm_rate (rc # rcs) st =
     arming_ticks arm_rate rcs (ThreadControlArming_tick arm_rate rc st)"

text \<open>\<open>vControlForceDisarm\<close>: the key is a \<open>uint32_t\<close>.\<close>

definition vControlForceDisarm :: "32 word \<Rightarrow> Control_State \<Rightarrow> Control_State" where
  "vControlForceDisarm key s =
     (if key = 0xdeadbeef then s\<lparr>controllers_armed := False\<rparr> else s)"

section \<open>The control thread\<close>

text \<open>
  \<open>vRCInputsToControlAction\<close>. The local \<open>const Flight_Mode selector\<close> is a definition
  of its own.
\<close>

definition selector :: Flight_Mode where
  "selector = FLIGHTMODE_ATTITUDE"

definition vRCInputsToControlAction :: "RC_Input \<Rightarrow> Control_State \<Rightarrow> Control_State" where
  "vRCInputsToControlAction rc s =
     (if controllers_armed s then
        (let cr = control_reference s;
             lim = control_limits s;
             cr1 = (if selector = FLIGHTMODE_RATE then
                      cr\<lparr>mode := FLIGHTMODE_RATE,
                         rate_reference := (rate_reference cr)
                           \<lparr>vec_x := max_rate_pitch lim * DEG2RAD * rc_level rc ROLE_PITCH,
                            vec_y := max_rate_roll lim * DEG2RAD * rc_level rc ROLE_ROLL\<rparr>\<rparr>
                    else
                      cr\<lparr>mode := FLIGHTMODE_ATTITUDE,
                         attitude_reference := (attitude_reference cr)
                           \<lparr>vec_x := max_angle_pitch lim * DEG2RAD * rc_level rc ROLE_PITCH,
                            vec_y := max_angle_roll lim * DEG2RAD * rc_level rc ROLE_ROLL\<rparr>\<rparr>);
             cr2 = cr1\<lparr>rate_reference := (rate_reference cr1)
                          \<lparr>vec_z := max_rate_yaw lim * DEG2RAD * rc_level rc ROLE_YAW\<rparr>\<rparr>;
             thr = rc_level rc ROLE_THROTTLE;
             cr3 = cr2\<lparr>actuator_desired := (actuator_desired cr2)
                          \<lparr>throttle := (if thr < armed_min_throttle (arm_settings s)
                                        then armed_min_throttle (arm_settings s) else thr)\<rparr>\<rparr>
         in s\<lparr>control_reference := cr3\<rparr>)
      else s\<lparr>control_reference := (control_reference s)\<lparr>mode := FLIGHTMODE_DISARMED\<rparr>\<rparr>)"

text \<open>The position and velocity controllers are empty; the measurement is a null pointer.\<close>

definition vPositionControl :: "vector3f_t option \<Rightarrow> real \<Rightarrow> Control_State \<Rightarrow> Control_State" where
  "vPositionControl position_m dt s = s"

definition vVelocityControl :: "vector3f_t option \<Rightarrow> real \<Rightarrow> Control_State \<Rightarrow> Control_State" where
  "vVelocityControl velocity_m dt s = s"

text \<open>
  \<open>vAttitudeControl\<close>. The local \<open>err\<close> is computed by \<open>attitude_err\<close>; the two angles
  the source computes inline are \<open>measured_about_x\<close> (the \<open>atan2f\<close> term) and
  \<open>measured_about_y\<close> (the \<open>asinf\<close> term).
\<close>

definition measured_about_x :: "quaternion_t \<Rightarrow> real" where
  "measured_about_x attitude_m =
     atan2f (2 * (q0 attitude_m * q1 attitude_m + q2 attitude_m * q3 attitude_m))
            (1 - 2 * (q1 attitude_m * q1 attitude_m + q2 attitude_m * q2 attitude_m))"

definition measured_about_y :: "quaternion_t \<Rightarrow> real" where
  "measured_about_y attitude_m =
     asinf (2 * (q0 attitude_m * q2 attitude_m - q1 attitude_m * q3 attitude_m))"

definition attitude_err :: "Control_Reference \<Rightarrow> quaternion_t \<Rightarrow> vector3f_t" where
  "attitude_err cr attitude_m =
     \<lparr>vec_x = vec_x (attitude_reference cr) + measured_about_x attitude_m,
      vec_y = vec_x (attitude_reference cr) - measured_about_y attitude_m,
      vec_z = 0\<rparr>"

definition vAttitudeControl ::
  "PI_Update \<Rightarrow> quaternion_t \<Rightarrow> bool \<Rightarrow> real \<Rightarrow> Control_State \<Rightarrow> Control_State" where
  "vAttitudeControl fPIUpdate attitude_m control_yaw dt s =
     (let err = attitude_err (control_reference s) attitude_m;
          cd = control_data s;
          (u_x, c0) = fPIUpdate (cd ! attitude_controller 0) (vec_y err) dt;
          cd0 = cd[attitude_controller 0 := c0];
          (u_y, c1) = fPIUpdate (cd0 ! attitude_controller 1) (vec_x err) dt;
          cd1 = cd0[attitude_controller 1 := c1];
          cr = control_reference s;
          lim = control_limits s
      in s\<lparr>control_data := cd1,
            control_reference := cr\<lparr>rate_reference := (rate_reference cr)
              \<lparr>vec_x := bound (max_rate_attitude_pitch lim) (- max_rate_attitude_pitch lim) u_x,
               vec_y := bound (max_rate_attitude_roll lim) (- max_rate_attitude_roll lim) u_y\<rparr>\<rparr>\<rparr>)"

text \<open>
  \<open>vRateControl\<close>. \<open>rate_filter\<close> is the update of the three static filter values,
  \<open>rate_error\<close> the local \<open>error\<close> computed from the filtered values.
\<close>

definition rate_filter :: "vector3f_t \<Rightarrow> Control_State \<Rightarrow> Control_State" where
  "rate_filter omega_m s =
     (let alpha = 2 / 10
      in s\<lparr>rate_t1 := alpha * vec_x omega_m + (1 - alpha) * rate_t1 s,
            rate_t2 := alpha * vec_y omega_m + (1 - alpha) * rate_t2 s,
            rate_t3 := alpha * vec_z omega_m + (1 - alpha) * rate_t3 s\<rparr>)"

definition rate_error :: "Control_State \<Rightarrow> vector3f_t" where
  "rate_error s =
     \<lparr>vec_x = vec_x (rate_reference (control_reference s)) - rate_t2 s,
      vec_y = vec_y (rate_reference (control_reference s)) - rate_t1 s,
      vec_z = vec_z (rate_reference (control_reference s)) - rate_t3 s\<rparr>"

definition vRateControl :: "PI_Update \<Rightarrow> vector3f_t \<Rightarrow> real \<Rightarrow> Control_State \<Rightarrow> Control_State" where
  "vRateControl fPIUpdate omega_m dt s =
     (let s1 = rate_filter omega_m s;
          error = rate_error s1;
          cd = control_data s1;
          (u_x, c0) = fPIUpdate (cd ! rate_controller 0) (vec_x error) dt;
          cd0 = cd[rate_controller 0 := c0];
          (u_y, c1) = fPIUpdate (cd0 ! rate_controller 1) (vec_y error) dt;
          cd1 = cd0[rate_controller 1 := c1];
          (u_z, c2) = fPIUpdate (cd1 ! rate_controller 2) (vec_z error) dt;
          cd2 = cd1[rate_controller 2 := c2];
          cr = control_reference s1
      in s1\<lparr>control_data := cd2,
             control_reference := cr\<lparr>actuator_desired := (actuator_desired cr)
               \<lparr>pitch := bound 1 (- 1) u_x,
                roll := bound 1 (- 1) u_y,
                yaw := bound 1 (- 1) u_z\<rparr>\<rparr>\<rparr>)"

text \<open>
  \<open>vUpdateOutputs\<close>: \<open>mix_channels n\<close> is the loop over the channels \<open>0\<close> to \<open>n - 1\<close>.
\<close>

fun mix_channels :: "nat \<Rightarrow> Actuator_Desired \<Rightarrow> real list list \<Rightarrow> real list \<Rightarrow> real list" where
  "mix_channels 0 ad w out = out"
| "mix_channels (Suc i) ad w out =
     (let out' = mix_channels i ad w out;
          sum = throttle ad * (w ! i ! 0);
          sum = sum + pitch ad * (w ! i ! 1);
          sum = sum + roll ad * (w ! i ! 2);
          sum = sum + yaw ad * (w ! i ! 3)
      in out'[i := bound 1 (- 1) sum])"

definition vUpdateOutputs :: "Control_State \<Rightarrow> Control_State" where
  "vUpdateOutputs s =
     (let cr = control_reference s
      in s\<lparr>control_reference :=
             cr\<lparr>pwm_out := mix_channels 8 (actuator_desired cr) (weights (output_mixer s))
                               (pwm_out cr)\<rparr>\<rparr>)"

text \<open>
  \<open>vSendPWMCommands\<close>: one call of \<open>RCOutputSetChannelWidthRelativePositive\<close> for each
  channel, in order.
\<close>

definition vSendPWMCommands :: "Control_State \<Rightarrow> Control_State" where
  "vSendPWMCommands s =
     s\<lparr>rc_output := rc_output s @ map (\<lambda>i. (i, pwm_out (control_reference s) ! i)) [0..<8]\<rparr>"

fun zero_channels :: "nat \<Rightarrow> real list \<Rightarrow> real list" where
  "zero_channels 0 out = out"
| "zero_channels (Suc i) out = (zero_channels i out)[i := 0]"

definition vDisableAllOutputs :: "Control_State \<Rightarrow> Control_State" where
  "vDisableAllOutputs s =
     vSendPWMCommands
       (s\<lparr>control_reference :=
            (control_reference s)\<lparr>pwm_out := zero_channels 8 (pwm_out (control_reference s))\<rparr>\<rparr>)"

text \<open>
  \<open>vUpdateControlAction\<close>. The \<open>switch\<close> falls through from the case of the mode to the
  \<open>break\<close> after \<open>vSendPWMCommands\<close>: \<open>cascade\<close> lists the calls made from each entry, and
  \<open>run_stage\<close> makes one of them. Every mode without a case of its own shares the
  default case with \<open>FLIGHTMODE_DISARMED\<close>.
\<close>

datatype Control_Stage =
    STAGE_POSITION
  | STAGE_VELOCITY
  | STAGE_ATTITUDE
  | STAGE_RATE
  | STAGE_UPDATE_OUTPUTS
  | STAGE_SEND_PWM
  | STAGE_DISABLE_OUTPUTS

fun cascade :: "Flight_Mode \<Rightarrow> Control_Stage list" where
  "cascade FLIGHTMODE_POSITION =
     [STAGE_POSITION, STAGE_VELOCITY, STAGE_ATTITUDE, STAGE_RATE, STAGE_UPDATE_OUTPUTS,
      STAGE_SEND_PWM]"
| "cascade FLIGHTMODE_VELOCITY =
     [STAGE_VELOCITY, STAGE_ATTITUDE, STAGE_RATE, STAGE_UPDATE_OUTPUTS, STAGE_SEND_PWM]"
| "cascade FLIGHTMODE_ATTITUDE =
     [STAGE_ATTITUDE, STAGE_RATE, STAGE_UPDATE_OUTPUTS, STAGE_SEND_PWM]"
| "cascade FLIGHTMODE_RATE = [STAGE_RATE, STAGE_UPDATE_OUTPUTS, STAGE_SEND_PWM]"
| "cascade FLIGHTMODE_DIRECT_CONTROL = [STAGE_UPDATE_OUTPUTS, STAGE_SEND_PWM]"
| "cascade FLIGTMODE_DIRECT_PWM = [STAGE_SEND_PWM]"
| "cascade FLIGHTMODE_DISARMED = [STAGE_DISABLE_OUTPUTS]"

fun run_stage ::
  "PI_Update \<Rightarrow> quaternion_t \<Rightarrow> vector3f_t \<Rightarrow> real \<Rightarrow> Control_Stage \<Rightarrow> Control_State
     \<Rightarrow> Control_State" where
  "run_stage fPIUpdate q_m omega_m dt STAGE_POSITION s = vPositionControl None dt s"
| "run_stage fPIUpdate q_m omega_m dt STAGE_VELOCITY s = vVelocityControl None dt s"
| "run_stage fPIUpdate q_m omega_m dt STAGE_ATTITUDE s = vAttitudeControl fPIUpdate q_m False dt s"
| "run_stage fPIUpdate q_m omega_m dt STAGE_RATE s = vRateControl fPIUpdate omega_m dt s"
| "run_stage fPIUpdate q_m omega_m dt STAGE_UPDATE_OUTPUTS s = vUpdateOutputs s"
| "run_stage fPIUpdate q_m omega_m dt STAGE_SEND_PWM s = vSendPWMCommands s"
| "run_stage fPIUpdate q_m omega_m dt STAGE_DISABLE_OUTPUTS s = vDisableAllOutputs s"

definition vUpdateControlAction ::
  "PI_Update \<Rightarrow> RC_Input \<Rightarrow> quaternion_t \<Rightarrow> vector3f_t \<Rightarrow> real \<Rightarrow> Control_State
     \<Rightarrow> Control_State" where
  "vUpdateControlAction fPIUpdate rc q_m omega_m dt s =
     (let s1 = vRCInputsToControlAction rc s;
          s2 = fold (run_stage fPIUpdate q_m omega_m dt) (cascade (mode (control_reference s1))) s1
      in s2\<lparr>cycle_i := (if cycle_i s2 > 40 then 0 else cycle_i s2 + 1)\<rparr>)"

section \<open>Parameter accessors and the parameter store\<close>

text \<open>
  \<open>copy_floats n src dst\<close> is the inner loop \<open>dst[j] = src[j]\<close> for \<open>j\<close> from \<open>0\<close> to
  \<open>n - 1\<close>; \<open>copy_controllers n src dst\<close> is the outer loop over the first \<open>n\<close> records,
  copying three floats of each.
\<close>

fun copy_floats :: "nat \<Rightarrow> real list \<Rightarrow> real list \<Rightarrow> real list" where
  "copy_floats 0 src dst = dst"
| "copy_floats (Suc j) src dst = (copy_floats j src dst)[j := src ! j]"

fun copy_controllers :: "nat \<Rightarrow> real list list \<Rightarrow> real list list \<Rightarrow> real list list" where
  "copy_controllers 0 src dst = dst"
| "copy_controllers (Suc i) src dst =
     (let dst' = copy_controllers i src dst
      in dst'[i := copy_floats 3 (src ! i) (dst' ! i)])"

text \<open>\<open>GetControlParameters\<close> returns the new content of the structure it is given.\<close>

definition GetControlParameters :: "Control_State \<Rightarrow> Control_Parameters \<Rightarrow> Control_Parameters" where
  "GetControlParameters s param =
     copy_controllers CONTROL_NUMBER_OF_CONTROLLERS (control_data s) param"

definition SetControlParameters :: "Control_Parameters \<Rightarrow> Control_State \<Rightarrow> Control_State" where
  "SetControlParameters param s =
     s\<lparr>control_data := copy_controllers CONTROL_NUMBER_OF_CONTROLLERS param (control_data s)\<rparr>"

text \<open>
  \<open>FlashSave_Read\<close> (flash_save.c) is missing, and nothing in control.c tells what a
  read does to the buffer it is given. The reads are therefore a parameter: for each of
  the four keys, the function from the content of the buffer handed to the read to the
  status returned and the content of the buffer afterwards. The four blocks are typed,
  not byte arrays.
\<close>

datatype FlashSave_Status = FLASHSAVE_OK | FLASHSAVE_ERROR

record FlashSave_Reads =
  read_CONA :: "Control_Arm_Settings \<Rightarrow> FlashSave_Status \<times> Control_Arm_Settings"
  read_CONP :: "Control_Parameters \<Rightarrow> FlashSave_Status \<times> Control_Parameters"
  read_CONL :: "Control_Limits \<Rightarrow> FlashSave_Status \<times> Control_Limits"
  read_CONM :: "Output_Mixer \<Rightarrow> FlashSave_Status \<times> Output_Mixer"

text \<open>
  \<open>vReadControlParametersFromFlash\<close>. The arm settings, the limits and the mixer are
  the buffers of their reads and the status of these reads is dropped; the controller
  parameters are read into \<open>flash_save_control_parameters\<close> and set only on success.
\<close>

definition vReadControlParametersFromFlash ::
  "FlashSave_Reads \<Rightarrow> Control_State \<Rightarrow> Control_State" where
  "vReadControlParametersFromFlash flash s =
     (let s1 = s\<lparr>arm_settings := snd (read_CONA flash (arm_settings s))\<rparr>;
          (status, buf) = read_CONP flash (flash_save_control_parameters s1);
          s2 = s1\<lparr>flash_save_control_parameters := buf\<rparr>;
          s3 = (if status = FLASHSAVE_OK
                then SetControlParameters (flash_save_control_parameters s2) s2 else s2);
          s4 = s3\<lparr>control_limits := snd (read_CONL flash (control_limits s3))\<rparr>
      in s4\<lparr>output_mixer := snd (read_CONM flash (output_mixer s4))\<rparr>)"

text \<open>
  \<open>ControlInit\<close>. The loops over the floats of a structure set every float of it to
  zero. \<open>rcoutput_ok\<close> is whether \<open>RCOutputInit\<close> returned \<open>MSG_OK\<close>; the system halt is
  the error value. The field \<open>target\<close> of the reference, which no function here reads,
  and the creation of the three threads are not modelled.
\<close>

datatype Control_Halt = HALT_RC_OUTPUT_INIT_FAILED

definition zero_vector3f :: vector3f_t where
  "zero_vector3f = \<lparr>vec_x = 0, vec_y = 0, vec_z = 0\<rparr>"

definition ControlInit ::
  "bool \<Rightarrow> FlashSave_Reads \<Rightarrow> Control_State \<Rightarrow> Control_Halt + Control_State" where
  "ControlInit rcoutput_ok flash s =
     (let s1 = s\<lparr>controllers_armed := False,
                 arm_settings := \<lparr>stick_threshold = 0, armed_min_throttle = 0,
                                  stick_direction = STICK_NONE, arm_stick_time = 5,
                                  arm_zero_throttle_timeout = 30\<rparr>\<rparr>
      in if \<not> rcoutput_ok then Inl HALT_RC_OUTPUT_INIT_FAILED
         else
           (let s2 = s1\<lparr>control_reference :=
                          \<lparr>mode = FLIGHTMODE_DISARMED,
                           attitude_reference = zero_vector3f,
                           rate_reference = zero_vector3f,
                           actuator_desired = \<lparr>throttle = 0, pitch = 0, roll = 0, yaw = 0\<rparr>,
                           pwm_out = map (\<lambda>_. 0) (pwm_out (control_reference s1))\<rparr>,
                        control_data := map (map (\<lambda>_. 0)) (control_data s1),
                        control_limits :=
                          \<lparr>max_angle_pitch = 0, max_angle_roll = 0, max_rate_pitch = 0,
                           max_rate_roll = 0, max_rate_yaw = 0, max_rate_attitude_pitch = 0,
                           max_rate_attitude_roll = 0\<rparr>,
                        output_mixer :=
                          \<lparr>weights = map (map (\<lambda>_. 0)) (weights (output_mixer s1))\<rparr>\<rparr>
            in Inr (vReadControlParametersFromFlash flash s2)))"

section \<open>Predicates and concrete inputs used by the theorems\<close>

text \<open>
  The arm gesture is held in a tick: the RC link is active, a gesture is configured, the
  emergency stop channel is not below one half, and the sticks are in the arm region.
\<close>

definition arm_gesture_held :: "Control_Arm_Settings \<Rightarrow> RC_Input \<Rightarrow> bool" where
  "arm_gesture_held settings rc \<longleftrightarrow>
     rc_active rc \<and> stick_direction settings \<noteq> STICK_NONE \<and> \<not> rc_level rc ROLE_AUX1 < 1 / 2
     \<and> SticksInRegion settings rc = STICK_ARM_REGION"

text \<open>The arm and the disarm counter are never both running.\<close>

definition timers_consistent :: "Arm_Timers \<Rightarrow> bool" where
  "timers_consistent tm \<longleftrightarrow> arm_time tm = 0 \<or> disarm_time tm = 0"

definition zero_timers :: Arm_Timers where
  "zero_timers = \<lparr>arm_time = 0, disarm_time = 0, timeout_time = 0\<rparr>"

text \<open>A state with every number zero, twelve controllers of four floats, disarmed.\<close>

definition example_state :: Control_State where
  "example_state =
     \<lparr>control_reference =
        \<lparr>mode = FLIGHTMODE_DISARMED,
         attitude_reference = zero_vector3f,
         rate_reference = zero_vector3f,
         actuator_desired = \<lparr>throttle = 0, pitch = 0, roll = 0, yaw = 0\<rparr>,
         pwm_out = replicate 8 0\<rparr>,
      control_data = replicate 12 (replicate 4 0),
      arm_settings =
        \<lparr>stick_threshold = 0, armed_min_throttle = 0, stick_direction = STICK_NONE,
         arm_stick_time = 0, arm_zero_throttle_timeout = 0\<rparr>,
      control_limits =
        \<lparr>max_angle_pitch = 0, max_angle_roll = 0, max_rate_pitch = 0, max_rate_roll = 0,
         max_rate_yaw = 0, max_rate_attitude_pitch = 0, max_rate_attitude_roll = 0\<rparr>,
      output_mixer = \<lparr>weights = replicate 8 (replicate 4 0)\<rparr>,
      flash_save_control_parameters = replicate 12 (replicate 3 0),
      controllers_armed = False,
      rate_t1 = 0, rate_t2 = 0, rate_t3 = 0,
      cycle_i = 0,
      rc_output = []\<rparr>"

text \<open>
  The scenario of the spec: threshold 0.1, gesture yaw maximum, one second of stick time;
  yaw held at 1 with the throttle at 0, and the same with yaw released to 0.
\<close>

definition scenario_state :: Control_State where
  "scenario_state =
     example_state\<lparr>arm_settings :=
       \<lparr>stick_threshold = 1 / 10, armed_min_throttle = 0, stick_direction = STICK_YAW_MAX,
        arm_stick_time = 1, arm_zero_throttle_timeout = 0\<rparr>\<rparr>"

definition scenario_rc :: RC_Input where
  "scenario_rc =
     \<lparr>rc_active = True,
      rc_level = (\<lambda>r. case r of ROLE_YAW \<Rightarrow> 1 | ROLE_AUX1 \<Rightarrow> 1 | _ \<Rightarrow> 0)\<rparr>"

definition released_rc :: RC_Input where
  "released_rc =
     \<lparr>rc_active = True,
      rc_level = (\<lambda>r. case r of ROLE_AUX1 \<Rightarrow> 1 | _ \<Rightarrow> 0)\<rparr>"

definition armed_example_state :: Control_State where
  "armed_example_state = example_state\<lparr>controllers_armed := True\<rparr>"

text \<open>
  The loop of \<open>ThreadControl\<close> over a finite run of estimation events, each with the RC
  snapshot, the attitude and the rate of that cycle, while no other thread writes.
\<close>

fun control_cycles ::
  "PI_Update \<Rightarrow> real \<Rightarrow> (RC_Input \<times> quaternion_t \<times> vector3f_t) list \<Rightarrow> Control_State
     \<Rightarrow> Control_State" where
  "control_cycles fPIUpdate dt [] s = s"
| "control_cycles fPIUpdate dt (ev # evs) s =
     control_cycles fPIUpdate dt evs
       (vUpdateControlAction fPIUpdate (fst ev) (fst (snd ev)) (snd (snd ev)) dt s)"

text \<open>
  A controller law to run the stages on concrete inputs: proportional and integral
  gain are the first two floats of the record, the integrator state is the fourth.
\<close>

definition example_pi :: PI_Update where
  "example_pi pi_data error dt =
     (let i_state = pi_data ! 3 + pi_data ! 1 * dt * error
      in (pi_data ! 0 * error + i_state, pi_data[3 := i_state]))"

definition identity_quaternion :: quaternion_t where
  "identity_quaternion = \<lparr>q0 = 1, q1 = 0, q2 = 0, q3 = 0\<rparr>"

definition half_throttle_rc :: RC_Input where
  "half_throttle_rc =
     \<lparr>rc_active = True,
      rc_level = (\<lambda>r. case r of ROLE_THROTTLE \<Rightarrow> 1 / 2 | ROLE_AUX1 \<Rightarrow> 1 | _ \<Rightarrow> 0)\<rparr>"

text \<open>
  A disarmed state reached from an armed one: one armed cycle with the throttle stick at
  one half, then the forced disarm.
\<close>

definition stale_demand_state :: Control_State where
  "stale_demand_state =
     vControlForceDisarm 0xdeadbeef
       (vUpdateControlAction example_pi half_throttle_rc identity_quaternion zero_vector3f
          (1 / 100) armed_example_state)"

text \<open>
  A mixer whose first channel passes the throttle through, with a throttle demand of one
  half.
\<close>

definition mixer_example_state :: Control_State where
  "mixer_example_state =
     example_state
       \<lparr>control_reference := (control_reference example_state)
          \<lparr>actuator_desired := \<lparr>throttle = 1 / 2, pitch = 0, roll = 0, yaw = 0\<rparr>\<rparr>,
        output_mixer := \<lparr>weights = [1, 0, 0, 0] # replicate 7 [0, 0, 0, 0]\<rparr>\<rparr>"

text \<open>
  Level attitude with a roll reference of 0.3 rad and a pitch reference of 0; unit
  proportional gain on the two attitude controllers and a rate limit of 10.
\<close>

definition roll_reference_state :: Control_State where
  "roll_reference_state =
     example_state
       \<lparr>control_reference := (control_reference example_state)
          \<lparr>mode := FLIGHTMODE_ATTITUDE,
           attitude_reference := \<lparr>vec_x = 0, vec_y = 3 / 10, vec_z = 0\<rparr>\<rparr>,
        control_data := (replicate 12 [0, 0, 0, 0])[6 := [1, 0, 0, 0], 7 := [1, 0, 0, 0]],
        control_limits := (control_limits example_state)
          \<lparr>max_rate_attitude_pitch := 10, max_rate_attitude_roll := 10\<rparr>,
        controllers_armed := True\<rparr>"

text \<open>A rate measurement about the first body axis only.\<close>

definition x_rate_omega :: vector3f_t where
  "x_rate_omega = \<lparr>vec_x = 1, vec_y = 0, vec_z = 0\<rparr>"

text \<open>Unit proportional gain on the three rate controllers, everything else zero.\<close>

definition rate_example_state :: Control_State where
  "rate_example_state =
     example_state
       \<lparr>control_reference := (control_reference example_state)\<lparr>mode := FLIGHTMODE_RATE\<rparr>,
        control_data := (replicate 12 [0, 0, 0, 0])
           [9 := [1, 0, 0, 0], 10 := [1, 0, 0, 0], 11 := [1, 0, 0, 0]],
        controllers_armed := True\<rparr>"

text \<open>Parameters for the twelve controllers, and an empty structure to read them into.\<close>

definition example_parameters :: Control_Parameters where
  "example_parameters = replicate 12 [3, 2, 1]"

definition blank_parameters :: Control_Parameters where
  "blank_parameters = replicate 12 [0, 0, 0]"

text \<open>
  Three behaviours of the reads. In the first every read fails and leaves its buffer as
  it was; in the second the read of the controller parameters succeeds; in the third
  the failing read of the arm settings has already written the gesture into its buffer.
  Then the state that \<open>ControlInit\<close> sets up from \<open>example_state\<close> before it reads.
\<close>

definition keeping_reads :: FlashSave_Reads where
  "keeping_reads =
     \<lparr>read_CONA = (\<lambda>buf. (FLASHSAVE_ERROR, buf)),
      read_CONP = (\<lambda>buf. (FLASHSAVE_ERROR, buf)),
      read_CONL = (\<lambda>buf. (FLASHSAVE_ERROR, buf)),
      read_CONM = (\<lambda>buf. (FLASHSAVE_ERROR, buf))\<rparr>"

definition gains_only_reads :: FlashSave_Reads where
  "gains_only_reads = keeping_reads\<lparr>read_CONP := (\<lambda>buf. (FLASHSAVE_OK, example_parameters))\<rparr>"

definition clobbering_reads :: FlashSave_Reads where
  "clobbering_reads =
     keeping_reads\<lparr>read_CONA :=
       (\<lambda>buf. (FLASHSAVE_ERROR, buf\<lparr>stick_direction := STICK_YAW_MAX\<rparr>))\<rparr>"

definition startup_defaults_state :: Control_State where
  "startup_defaults_state =
     example_state\<lparr>arm_settings :=
       \<lparr>stick_threshold = 0, armed_min_throttle = 0, stick_direction = STICK_NONE,
        arm_stick_time = 5, arm_zero_throttle_timeout = 30\<rparr>\<rparr>"

section \<open>The arming thread: counting ticks\<close>

lemma div_gt_iff: "0 < (r::nat) \<Longrightarrow> t < a div r \<longleftrightarrow> Suc t * r \<le> a"
  using less_eq_div_iff_mult_less_eq [of r "Suc t" a] by (simp add: Suc_le_eq)

lemma held_tick:
  assumes "arm_gesture_held (arm_settings s) rc"
  shows "ThreadControlArming_tick r rc (s, tm) =
           (if unat (arm_time tm) div r > arm_stick_time (arm_settings s)
            then (s\<lparr>controllers_armed := True\<rparr>, tm)
            else (s, tm\<lparr>arm_time := arm_time tm + 1, disarm_time := 0, timeout_time := 0\<rparr>))"
  using assms by (simp add: ThreadControlArming_tick_def arm_gesture_held_def Let_def)

lemma unat_of_nat_16: "a < 65536 \<Longrightarrow> unat (of_nat a :: 16 word) = a"
  by (simp add: unat_of_nat)

lemma held_check:
  assumes "0 < r" and "a < 65536" and "arm_time tm = of_nat a"
  shows "arm_stick_time (arm_settings s) < unat (arm_time tm) div r
           \<longleftrightarrow> Suc (arm_stick_time (arm_settings s)) * r \<le> a"
proof -
  have "unat (arm_time tm) = a" using assms(2,3) by (simp add: unat_of_nat_16)
  then show ?thesis using assms(1) by (simp only: div_gt_iff)
qed

lemma held_ticks_armed:
  assumes "0 < r" and "m < 65536" and "m = Suc (arm_stick_time (arm_settings s)) * r"
    and "\<forall>rc \<in> set rcs. arm_gesture_held (arm_settings s) rc"
    and "controllers_armed s"
    and "arm_time tm = of_nat m"
  shows "arming_ticks r rcs (s, tm) = (s, tm)"
  using assms(4)
proof (induction rcs)
  case Nil
  then show ?case by simp
next
  case (Cons rc rcs)
  have same: "s\<lparr>controllers_armed := True\<rparr> = s" using assms(5) by simp
  have held: "arm_gesture_held (arm_settings s) rc" using Cons.prems by simp
  have "Suc (arm_stick_time (arm_settings s)) * r \<le> m" using assms(3) by simp
  then have "arm_stick_time (arm_settings s) < unat (arm_time tm) div r"
    by (simp only: held_check [where s = s, OF assms(1,2,6)])
  then have "ThreadControlArming_tick r rc (s, tm) = (s, tm)"
    using held same by (simp only: held_tick if_True)
  then show ?case using Cons by simp
qed

lemma held_ticks_count:
  assumes "0 < r" and "m < 65536" and "m = Suc (arm_stick_time (arm_settings s)) * r"
    and "\<forall>rc \<in> set rcs. arm_gesture_held (arm_settings s) rc"
    and "\<not> controllers_armed s"
    and "arm_time tm = of_nat a" and "a \<le> m"
  shows "controllers_armed (fst (arming_ticks r rcs (s, tm))) \<longleftrightarrow> m < a + length rcs"
  using assms(4,6,7)
proof (induction rcs arbitrary: tm a)
  case Nil
  then show ?case using assms(5) by simp
next
  case (Cons rc rcs)
  have held: "arm_gesture_held (arm_settings s) rc" using Cons.prems(1) by simp
  have rest: "\<forall>rc \<in> set rcs. arm_gesture_held (arm_settings s) rc" using Cons.prems(1) by simp
  have a: "a < 65536" using Cons.prems(3) assms(2) by simp
  have check: "arm_stick_time (arm_settings s) < unat (arm_time tm) div r \<longleftrightarrow> m \<le> a"
    unfolding assms(3) by (rule held_check [where s = s, OF assms(1) a Cons.prems(2)])
  show ?case
  proof (cases "a < m")
    case True
    let ?tm = "tm\<lparr>arm_time := arm_time tm + 1, disarm_time := 0, timeout_time := 0\<rparr>"
    have tick: "ThreadControlArming_tick r rc (s, tm) = (s, ?tm)"
      using held check True by (simp add: held_tick)
    have "arm_time ?tm = of_nat (Suc a)" using Cons.prems(2) by simp
    moreover have "Suc a \<le> m" using True by simp
    ultimately have "controllers_armed (fst (arming_ticks r rcs (s, ?tm)))
        \<longleftrightarrow> m < Suc a + length rcs"
      using rest by (rule Cons.IH [rotated])
    then show ?thesis using tick by simp
  next
    case False
    then have eq: "a = m" using Cons.prems(3) by simp
    let ?s = "s\<lparr>controllers_armed := True\<rparr>"
    have tick: "ThreadControlArming_tick r rc (s, tm) = (?s, tm)"
      using held check eq by (simp add: held_tick)
    have "arming_ticks r rcs (?s, tm) = (?s, tm)"
    proof (rule held_ticks_armed [OF assms(1,2)])
      show "m = Suc (arm_stick_time (arm_settings ?s)) * r" using assms(3) by simp
      show "\<forall>rc\<in>set rcs. arm_gesture_held (arm_settings ?s) rc" using rest by simp
      show "controllers_armed ?s" by simp
      show "arm_time tm = of_nat m" using Cons.prems(2) eq by simp
    qed
    then show ?thesis using tick eq by simp
  qed
qed

lemma tick_consistent:
  assumes "timers_consistent tm"
  shows "timers_consistent (snd (ThreadControlArming_tick r rc (s, tm)))"
  using assms by (simp add: ThreadControlArming_tick_def timers_consistent_def Let_def)

lemma tick_reset:
  assumes "rc_active rc" "stick_direction (arm_settings s) \<noteq> STICK_NONE"
    "\<not> rc_level rc ROLE_AUX1 < 1 / 2" "SticksInRegion (arm_settings s) rc \<noteq> STICK_ARM_REGION"
    "timers_consistent tm"
  shows "arm_time (snd (ThreadControlArming_tick r rc (s, tm))) = 0"
proof -
  have "unat (disarm_time tm) div r > arm_stick_time (arm_settings s) \<Longrightarrow> arm_time tm = 0"
  proof -
    assume "unat (disarm_time tm) div r > arm_stick_time (arm_settings s)"
    then have "unat (disarm_time tm) \<noteq> 0" by (auto intro: ccontr)
    then have "disarm_time tm \<noteq> 0" by (auto simp: unat_eq_0)
    then show ?thesis using assms(5) by (simp add: timers_consistent_def)
  qed
  then show ?thesis
    using assms by (auto simp add: ThreadControlArming_tick_def Let_def)
qed

text \<open>
  C1, as the code has it. With an active RC link, a configured gesture, the emergency
  stop channel at or above one half and the sticks in the arm region in every tick,
  starting disarmed with \<open>arm_time = 0\<close>, a stick time of \<open>T\<close> seconds and a rate of
  \<open>R > 0\<close> ticks per second with \<open>(T + 1) * R < 65536\<close>: the armed flag is set after a
  run of ticks exactly when the run is longer than \<open>(T + 1) * R\<close> ticks. So fewer than
  \<open>T * R\<close> ticks never arm, and \<open>T * R\<close> ticks do not arm either: the test is
  \<open>arm_time / ARM_RATE > arm_stick_time\<close> on integers, made before the counter is
  incremented. A tick with link, gesture and emergency stop as above whose region is
  not the arm region leaves \<open>arm_time\<close> at 0, given that the arm and the disarm counter
  are not both running, which holds at the start of the thread and after every tick.
\<close>

theorem arming_hysteresis_ticks:
  assumes "0 < arm_rate"
    and "Suc (arm_stick_time (arm_settings s)) * arm_rate < 65536"
    and "\<forall>rc \<in> set rcs. arm_gesture_held (arm_settings s) rc"
    and "\<not> controllers_armed s"
    and "arm_time tm = 0"
    and "rc_active rc'"
    and "stick_direction (arm_settings s') \<noteq> STICK_NONE"
    and "\<not> rc_level rc' ROLE_AUX1 < 1 / 2"
    and "SticksInRegion (arm_settings s') rc' \<noteq> STICK_ARM_REGION"
    and "timers_consistent tm'"
  shows "(controllers_armed (fst (arming_ticks arm_rate rcs (s, tm)))
            \<longleftrightarrow> Suc (arm_stick_time (arm_settings s)) * arm_rate < length rcs)
       \<and> arm_time (snd (ThreadControlArming_tick arm_rate rc' (s', tm'))) = 0
       \<and> timers_consistent (snd (ThreadControlArming_tick arm_rate rc' (s', tm')))"
proof -
  have "arm_time tm = of_nat 0" using assms(5) by simp
  from held_ticks_count [OF assms(1,2) refl assms(3,4) this]
  have "controllers_armed (fst (arming_ticks arm_rate rcs (s, tm)))
          \<longleftrightarrow> Suc (arm_stick_time (arm_settings s)) * arm_rate < length rcs"
    by simp
  moreover have "arm_time (snd (ThreadControlArming_tick arm_rate rc' (s', tm'))) = 0"
    using assms(6-10) by (rule tick_reset)
  moreover have "timers_consistent (snd (ThreadControlArming_tick arm_rate rc' (s', tm')))"
    using assms(10) by (rule tick_consistent)
  ultimately show ?thesis by simp
qed

lemma scenario_held: "arm_gesture_held (arm_settings scenario_state) scenario_rc"
  by (simp add: arm_gesture_held_def SticksInRegion_def scenario_state_def scenario_rc_def
      example_state_def)

lemma scenario_released:
  "SticksInRegion (arm_settings scenario_state) released_rc = STICK_NO_REGION"
  by (simp add: SticksInRegion_def scenario_state_def released_rc_def example_state_def)

lemma scenario_start:
  "\<not> controllers_armed scenario_state" "arm_stick_time (arm_settings scenario_state) = 1"
  "stick_direction (arm_settings scenario_state) \<noteq> STICK_NONE"
  by (simp_all add: scenario_state_def example_state_def)

theorem arming_hysteresis_ticks_witness:
  "controllers_armed (fst (arming_ticks 50 (replicate 101 scenario_rc)
                            (scenario_state, zero_timers)))
   \<and> \<not> controllers_armed (fst (arming_ticks 50 (replicate 100 scenario_rc)
                            (scenario_state, zero_timers)))
   \<and> arm_time (snd (ThreadControlArming_tick 50 released_rc
                      (scenario_state, zero_timers\<lparr>arm_time := 37\<rparr>))) = 0"
proof -
  have tm: "arm_time zero_timers = 0" "timers_consistent (zero_timers\<lparr>arm_time := 37\<rparr>)"
    by (simp_all add: zero_timers_def timers_consistent_def)
  have rel: "rc_active released_rc" "\<not> rc_level released_rc ROLE_AUX1 < 1 / 2"
    "SticksInRegion (arm_settings scenario_state) released_rc \<noteq> STICK_ARM_REGION"
    by (simp_all add: scenario_released) (simp_all add: released_rc_def)
  have a: "controllers_armed (fst (arming_ticks 50 (replicate 101 scenario_rc)
                                    (scenario_state, zero_timers)))
           \<and> arm_time (snd (ThreadControlArming_tick 50 released_rc
                      (scenario_state, zero_timers\<lparr>arm_time := 37\<rparr>))) = 0"
    using arming_hysteresis_ticks [of 50 scenario_state "replicate 101 scenario_rc" zero_timers
        released_rc scenario_state "zero_timers\<lparr>arm_time := 37\<rparr>"]
      scenario_held scenario_start tm rel by simp
  have b: "\<not> controllers_armed (fst (arming_ticks 50 (replicate 100 scenario_rc)
                                    (scenario_state, zero_timers)))"
    using arming_hysteresis_ticks [of 50 scenario_state "replicate 100 scenario_rc" zero_timers
        released_rc scenario_state "zero_timers\<lparr>arm_time := 37\<rparr>"]
      scenario_held scenario_start tm rel by simp
  show ?thesis using a b by simp
qed

text \<open>
  C1, as the spec states it, fails in its own scenario: after 50 ticks of the arm gesture
  at 50 ticks per second with a stick time of one second, the system is still disarmed.
\<close>

theorem arming_after_50_ticks_counterexample:
  "arm_gesture_held (arm_settings scenario_state) scenario_rc
   \<and> arm_stick_time (arm_settings scenario_state) * 50 \<le> length (replicate 50 scenario_rc)
   \<and> \<not> controllers_armed (fst (arming_ticks 50 (replicate 50 scenario_rc)
                               (scenario_state, zero_timers)))"
proof -
  have "arm_time zero_timers = of_nat 0" by (simp add: zero_timers_def)
  from held_ticks_count [of 50 "Suc (arm_stick_time (arm_settings scenario_state)) * 50"
      scenario_state "replicate 50 scenario_rc" zero_timers 0, OF _ _ refl _ _ this]
  have "\<not> controllers_armed (fst (arming_ticks 50 (replicate 50 scenario_rc)
                                  (scenario_state, zero_timers)))"
    using scenario_held scenario_start by simp
  then show ?thesis using scenario_held scenario_start by simp
qed

section \<open>The forced disarm\<close>

text \<open>
  C6. \<open>vControlForceDisarm\<close> with the key \<open>0xdeadbeef\<close> clears the armed flag in every
  state and changes nothing else; with any other key it returns the state as it was.
  Hence on an armed state the flag is cleared exactly for the key \<open>0xdeadbeef\<close>. The
  function reads nothing but the key and has no error value.
\<close>

theorem force_disarm_key:
  "vControlForceDisarm 0xdeadbeef s = s\<lparr>controllers_armed := False\<rparr>
   \<and> (key \<noteq> 0xdeadbeef \<longrightarrow> vControlForceDisarm key s = s)
   \<and> (controllers_armed s \<longrightarrow>
        (\<not> controllers_armed (vControlForceDisarm key s) \<longleftrightarrow> key = 0xdeadbeef))"
  by (simp add: vControlForceDisarm_def)

theorem force_disarm_key_witness:
  "(0x12345678 :: 32 word) \<noteq> 0xdeadbeef \<and> controllers_armed armed_example_state
   \<and> vControlForceDisarm 0x12345678 armed_example_state = armed_example_state
   \<and> controllers_armed (vControlForceDisarm 0x12345678 armed_example_state)
   \<and> \<not> controllers_armed (vControlForceDisarm 0xdeadbeef armed_example_state)"
proof -
  have k: "(0x12345678 :: 32 word) \<noteq> 0xdeadbeef" by simp
  have a: "controllers_armed armed_example_state"
    by (simp add: armed_example_state_def)
  show ?thesis
    using force_disarm_key [of armed_example_state "0x12345678"]
      force_disarm_key [of armed_example_state "0xdeadbeef"] k a by simp
qed

section \<open>The control cycle while disarmed\<close>

lemma zero_channels_length: "length (zero_channels n out) = length out"
  by (induction n) simp_all

lemma zero_channels_nth:
  "i < length out \<Longrightarrow> zero_channels n out ! i = (if i < n then 0 else out ! i)"
  by (induction n) (auto simp: zero_channels_length nth_list_update less_Suc_eq)

lemma zero_channels_all: "length out = n \<Longrightarrow> zero_channels n out = replicate n 0"
  by (rule nth_equalityI) (simp_all add: zero_channels_length zero_channels_nth)

lemma disarmed_mode:
  "\<not> controllers_armed s \<Longrightarrow>
     vRCInputsToControlAction rc s =
       s\<lparr>control_reference := (control_reference s)\<lparr>mode := FLIGHTMODE_DISARMED\<rparr>\<rparr>"
  by (simp add: vRCInputsToControlAction_def)

lemma armed_mode:
  "controllers_armed s \<Longrightarrow>
     mode (control_reference (vRCInputsToControlAction rc s)) = FLIGHTMODE_ATTITUDE"
  by (simp add: vRCInputsToControlAction_def selector_def Let_def)

lemma cycle_when_disarmed:
  assumes "\<not> controllers_armed s"
  shows "vUpdateControlAction fPIUpdate rc q_m omega_m dt s =
           s\<lparr>control_reference :=
                (control_reference s)\<lparr>mode := FLIGHTMODE_DISARMED,
                   pwm_out := zero_channels 8 (pwm_out (control_reference s))\<rparr>,
              rc_output := rc_output s @
                 map (\<lambda>i. (i, zero_channels 8 (pwm_out (control_reference s)) ! i)) [0..<8],
              cycle_i := (if cycle_i s > 40 then 0 else cycle_i s + 1)\<rparr>"
  using assms
  by (simp add: vUpdateControlAction_def disarmed_mode vDisableAllOutputs_def
      vSendPWMCommands_def Let_def)

lemma map_zero_channels:
  "length out = 8 \<Longrightarrow>
     map (\<lambda>i. (i, zero_channels 8 out ! i)) [0..<8] = map (\<lambda>i. (i, 0)) [0..<8]"
  by (simp add: zero_channels_all)

lemma cycle_armed_flag:
  "controllers_armed (vUpdateControlAction fPIUpdate rc q_m omega_m dt s) = controllers_armed s"
  by (cases "controllers_armed s")
    (simp_all add: vUpdateControlAction_def vRCInputsToControlAction_def selector_def Let_def
      vAttitudeControl_def vRateControl_def rate_filter_def vUpdateOutputs_def vSendPWMCommands_def
      vDisableAllOutputs_def split: prod.splits)


lemma cycle_throttle:
  "throttle (actuator_desired (control_reference
      (vUpdateControlAction fPIUpdate rc q_m omega_m dt s))) =
     (if controllers_armed s
      then (if rc_level rc ROLE_THROTTLE < armed_min_throttle (arm_settings s)
            then armed_min_throttle (arm_settings s) else rc_level rc ROLE_THROTTLE)
      else throttle (actuator_desired (control_reference s)))"
  by (cases "controllers_armed s")
    (simp_all add: vUpdateControlAction_def vRCInputsToControlAction_def selector_def Let_def
      vAttitudeControl_def vRateControl_def rate_filter_def vUpdateOutputs_def vSendPWMCommands_def
      vDisableAllOutputs_def split: prod.splits)

lemma force_disarm_fields:
  "controllers_armed (vControlForceDisarm 0xdeadbeef s) = False"
  "control_reference (vControlForceDisarm key s) = control_reference s"
  by (simp_all add: vControlForceDisarm_def)

lemma stale_demand_disarmed: "\<not> controllers_armed stale_demand_state"
  by (simp add: stale_demand_state_def force_disarm_fields)

lemma stale_demand_throttle:
  "throttle (actuator_desired (control_reference stale_demand_state)) = 1 / 2"
  by (simp add: stale_demand_state_def force_disarm_fields cycle_throttle
      armed_example_state_def example_state_def half_throttle_rc_def)

lemma cycles_when_disarmed:
  "\<not> controllers_armed s \<Longrightarrow>
     \<exists>m p out c. control_cycles fPIUpdate dt evs s =
        s\<lparr>control_reference := (control_reference s)\<lparr>mode := m, pwm_out := p\<rparr>,
          rc_output := out, cycle_i := c\<rparr>"
proof (induction evs arbitrary: s)
  case Nil
  have "s = s\<lparr>control_reference := (control_reference s)
               \<lparr>mode := mode (control_reference s), pwm_out := pwm_out (control_reference s)\<rparr>,
             rc_output := rc_output s, cycle_i := cycle_i s\<rparr>"
    by simp
  then show ?case by (metis control_cycles.simps(1))
next
  case (Cons ev evs)
  let ?s = "vUpdateControlAction fPIUpdate (fst ev) (fst (snd ev)) (snd (snd ev)) dt s"
  have d: "\<not> controllers_armed ?s" using Cons.prems by (simp add: cycle_armed_flag)
  from Cons.IH [OF d] obtain m p out c where
    "control_cycles fPIUpdate dt evs ?s =
        ?s\<lparr>control_reference := (control_reference ?s)\<lparr>mode := m, pwm_out := p\<rparr>,
          rc_output := out, cycle_i := c\<rparr>" by blast
  then have "control_cycles fPIUpdate dt (ev # evs) s =
        s\<lparr>control_reference := (control_reference s)\<lparr>mode := m, pwm_out := p\<rparr>,
          rc_output := out, cycle_i := c\<rparr>"
    using Cons.prems by (simp add: cycle_when_disarmed)
  then show ?case by blast
qed

text \<open>
  C2, as the code has it. In a control cycle that starts with the armed flag clear, the
  mode becomes \<open>FLIGHTMODE_DISARMED\<close>, all eight \<open>pwm_out\<close> channels are set to 0 and
  these eight zeros are sent to the output driver, whatever the RC input; the only call
  made from the \<open>switch\<close> is \<open>vDisableAllOutputs\<close>, so no stage of the pipeline runs.
  The four components of \<open>actuator_desired\<close> are not written: they keep the values
  they had.
\<close>

theorem disarmed_cycle_outputs:
  assumes "\<not> controllers_armed s"
    and "length (pwm_out (control_reference s)) = 8"
    and "s' = vUpdateControlAction fPIUpdate rc q_m omega_m dt s"
  shows "mode (control_reference s') = FLIGHTMODE_DISARMED
       \<and> pwm_out (control_reference s') = replicate 8 0
       \<and> rc_output s' = rc_output s @ map (\<lambda>i. (i, 0)) [0..<8]
       \<and> actuator_desired (control_reference s') = actuator_desired (control_reference s)
       \<and> cascade (mode (control_reference (vRCInputsToControlAction rc s)))
           = [STAGE_DISABLE_OUTPUTS]
       \<and> s' = (vDisableAllOutputs (vRCInputsToControlAction rc s))
                \<lparr>cycle_i := (if cycle_i s > 40 then 0 else cycle_i s + 1)\<rparr>"
proof -
  have z: "zero_channels 8 (pwm_out (control_reference s)) = replicate 8 0"
    using assms(2) by (rule zero_channels_all)
  have m: "map (\<lambda>i. (i, zero_channels 8 (pwm_out (control_reference s)) ! i)) [0..<8]
             = map (\<lambda>i. (i, 0)) [0..<8]"
    using assms(2) by (rule map_zero_channels)
  have s': "s' = s\<lparr>control_reference :=
                (control_reference s)\<lparr>mode := FLIGHTMODE_DISARMED, pwm_out := replicate 8 0\<rparr>,
              rc_output := rc_output s @ map (\<lambda>i. (i, 0)) [0..<8],
              cycle_i := (if cycle_i s > 40 then 0 else cycle_i s + 1)\<rparr>"
    by (simp only: assms(3) cycle_when_disarmed [OF assms(1)] m) (simp only: z)
  have c: "cascade (mode (control_reference (vRCInputsToControlAction rc s)))
             = [STAGE_DISABLE_OUTPUTS]"
    using assms(1) by (simp add: disarmed_mode)
  have d: "s' = (vDisableAllOutputs (vRCInputsToControlAction rc s))
                \<lparr>cycle_i := (if cycle_i s > 40 then 0 else cycle_i s + 1)\<rparr>"
    unfolding assms(3) using assms(1)
    by (simp add: vUpdateControlAction_def disarmed_mode vDisableAllOutputs_def
        vSendPWMCommands_def Let_def)
  have f: "mode (control_reference s') = FLIGHTMODE_DISARMED
       \<and> pwm_out (control_reference s') = replicate 8 0
       \<and> rc_output s' = rc_output s @ map (\<lambda>i. (i, 0)) [0..<8]
       \<and> actuator_desired (control_reference s') = actuator_desired (control_reference s)"
    by (simp add: s')
  show ?thesis using f c d by blast
qed

theorem disarmed_cycle_outputs_witness:
  "\<not> controllers_armed example_state
   \<and> pwm_out (control_reference
        (vUpdateControlAction example_pi scenario_rc identity_quaternion zero_vector3f (1 / 100)
           (example_state\<lparr>control_reference :=
              (control_reference example_state)\<lparr>pwm_out := [1, 1, 1, 1, 1, 1, 1, 1]\<rparr>\<rparr>)))
       = [0, 0, 0, 0, 0, 0, 0, 0]"
proof -
  let ?s = "example_state\<lparr>control_reference :=
              (control_reference example_state)\<lparr>pwm_out := [1, 1, 1, 1, 1, 1, 1, 1]\<rparr>\<rparr>"
  have a: "\<not> controllers_armed ?s" "\<not> controllers_armed example_state"
    "length (pwm_out (control_reference ?s)) = 8"
    by (simp_all add: example_state_def)
  have r: "replicate 8 (0::real) = [0, 0, 0, 0, 0, 0, 0, 0]" by (simp add: numeral_eq_Suc)
  have "pwm_out (control_reference
          (vUpdateControlAction example_pi scenario_rc identity_quaternion zero_vector3f
             (1 / 100) ?s)) = replicate 8 0"
    using disarmed_cycle_outputs [OF a(1) a(3) refl, of example_pi scenario_rc
        identity_quaternion zero_vector3f "1 / 100"] by blast
  then show ?thesis using a(2) r by simp
qed

text \<open>
  C2, as the spec states it, fails for \<open>actuator_desired\<close>: after an armed cycle with the
  throttle stick at one half and a forced disarm, a disarmed cycle leaves the throttle
  demand at one half.
\<close>

theorem disarmed_cycle_keeps_demand_counterexample:
  "\<not> controllers_armed stale_demand_state
   \<and> throttle (actuator_desired (control_reference
        (vUpdateControlAction example_pi released_rc identity_quaternion zero_vector3f (1 / 100)
           stale_demand_state))) = 1 / 2"
  by (simp add: stale_demand_disarmed cycle_throttle stale_demand_throttle)

text \<open>
  C9. A control cycle that starts with the armed flag clear changes, in the control
  reference, the mode and the eight \<open>pwm_out\<close> channels only; the controller records in
  \<open>control_data\<close>, the three filter values of the rate stage, the settings, limits and
  mixer are as before (the cycle also hands the zeros to the output driver and advances
  its cycle counter). Over any run of such cycles the controller records, the filter
  values, the attitude and rate references and the actuator demand keep their values, so
  they are what the next armed cycle starts from.
\<close>

theorem disarmed_cycle_frame:
  assumes "\<not> controllers_armed s"
    and "s' = vUpdateControlAction fPIUpdate rc q_m omega_m dt s"
    and "s'' = control_cycles fPIUpdate dt evs s"
  shows "control_reference s' =
           (control_reference s)\<lparr>mode := FLIGHTMODE_DISARMED,
              pwm_out := zero_channels 8 (pwm_out (control_reference s))\<rparr>
       \<and> control_data s' = control_data s
       \<and> rate_t1 s' = rate_t1 s \<and> rate_t2 s' = rate_t2 s \<and> rate_t3 s' = rate_t3 s
       \<and> arm_settings s' = arm_settings s \<and> control_limits s' = control_limits s
       \<and> output_mixer s' = output_mixer s
       \<and> flash_save_control_parameters s' = flash_save_control_parameters s
       \<and> controllers_armed s' = controllers_armed s
       \<and> control_data s'' = control_data s
       \<and> rate_t1 s'' = rate_t1 s \<and> rate_t2 s'' = rate_t2 s \<and> rate_t3 s'' = rate_t3 s
       \<and> attitude_reference (control_reference s'') = attitude_reference (control_reference s)
       \<and> rate_reference (control_reference s'') = rate_reference (control_reference s)
       \<and> actuator_desired (control_reference s'') = actuator_desired (control_reference s)"
proof -
  from cycles_when_disarmed [OF assms(1), of fPIUpdate dt evs] obtain m p out c where
    "s'' = s\<lparr>control_reference := (control_reference s)\<lparr>mode := m, pwm_out := p\<rparr>,
            rc_output := out, cycle_i := c\<rparr>"
    unfolding assms(3) by blast
  then show ?thesis
    unfolding assms(2) cycle_when_disarmed [OF assms(1)] by simp
qed

theorem disarmed_cycle_frame_witness:
  "\<not> controllers_armed stale_demand_state
   \<and> control_data (control_cycles example_pi (1 / 100)
        [(released_rc, identity_quaternion, zero_vector3f),
         (scenario_rc, identity_quaternion, zero_vector3f)] stale_demand_state)
       = control_data stale_demand_state
   \<and> actuator_desired (control_reference
        (vUpdateControlAction example_pi released_rc identity_quaternion zero_vector3f (1 / 100)
           stale_demand_state))
       = actuator_desired (control_reference stale_demand_state)"
  using disarmed_cycle_frame [OF stale_demand_disarmed refl refl, of example_pi released_rc
      identity_quaternion zero_vector3f "1 / 100"
      "[(released_rc, identity_quaternion, zero_vector3f),
        (scenario_rc, identity_quaternion, zero_vector3f)]"]
    stale_demand_disarmed by simp

section \<open>The entry into the cascade\<close>

text \<open>
  C8. The selector of \<open>vRCInputsToControlAction\<close> is the constant
  \<open>FLIGHTMODE_ATTITUDE\<close>. In every cycle that starts with the armed flag set, whatever the
  mode was before, the mode becomes \<open>FLIGHTMODE_ATTITUDE\<close>; the \<open>switch\<close> is entered at
  the attitude case and the cycle is the attitude stage, the rate stage, the output
  update and the send, in this order. The mode is none of rate, velocity, position,
  direct control and direct PWM.
\<close>

theorem armed_cycle_enters_at_attitude:
  assumes "controllers_armed s"
    and "s1 = vRCInputsToControlAction rc s"
  shows "selector = FLIGHTMODE_ATTITUDE
       \<and> mode (control_reference s1) = FLIGHTMODE_ATTITUDE
       \<and> cascade (mode (control_reference s1))
           = [STAGE_ATTITUDE, STAGE_RATE, STAGE_UPDATE_OUTPUTS, STAGE_SEND_PWM]
       \<and> mode (control_reference s1)
           \<notin> {FLIGHTMODE_RATE, FLIGHTMODE_VELOCITY, FLIGHTMODE_POSITION,
               FLIGHTMODE_DIRECT_CONTROL, FLIGTMODE_DIRECT_PWM}
       \<and> vUpdateControlAction fPIUpdate rc q_m omega_m dt s =
           (let s2 = vSendPWMCommands (vUpdateOutputs (vRateControl fPIUpdate omega_m dt
                       (vAttitudeControl fPIUpdate q_m False dt s1)))
            in s2\<lparr>cycle_i := (if cycle_i s2 > 40 then 0 else cycle_i s2 + 1)\<rparr>)"
proof -
  have m: "mode (control_reference s1) = FLIGHTMODE_ATTITUDE"
    unfolding assms(2) using assms(1) by (rule armed_mode)
  have "vUpdateControlAction fPIUpdate rc q_m omega_m dt s =
           (let s2 = vSendPWMCommands (vUpdateOutputs (vRateControl fPIUpdate omega_m dt
                       (vAttitudeControl fPIUpdate q_m False dt s1)))
            in s2\<lparr>cycle_i := (if cycle_i s2 > 40 then 0 else cycle_i s2 + 1)\<rparr>)"
    using m unfolding assms(2) by (simp add: vUpdateControlAction_def Let_def)
  then show ?thesis using m by (simp add: selector_def)
qed

theorem armed_cycle_enters_at_attitude_witness:
  "controllers_armed armed_example_state
   \<and> mode (control_reference (vRCInputsToControlAction half_throttle_rc armed_example_state))
       = FLIGHTMODE_ATTITUDE
   \<and> cascade (mode (control_reference
        (vRCInputsToControlAction half_throttle_rc armed_example_state)))
       = [STAGE_ATTITUDE, STAGE_RATE, STAGE_UPDATE_OUTPUTS, STAGE_SEND_PWM]"
proof -
  have a: "controllers_armed armed_example_state" by (simp add: armed_example_state_def)
  show ?thesis
    using armed_cycle_enters_at_attitude [OF a refl, of half_throttle_rc] a by simp
qed


section \<open>The output mixer\<close>

lemma bound_range: "min_v \<le> max_v \<Longrightarrow> min_v \<le> bound max_v min_v v \<and> bound max_v min_v v \<le> max_v"
  by (simp add: bound_def)

lemma bound_unit: "- 1 \<le> bound 1 (- 1) v \<and> bound 1 (- 1) v \<le> 1"
  by (simp add: bound_def)

lemma bound_inside: "min_v \<le> v \<Longrightarrow> v \<le> max_v \<Longrightarrow> bound max_v min_v v = v"
  by (simp add: bound_def)

lemma mix_channels_length: "length (mix_channels n ad w out) = length out"
  by (induction n) (simp_all add: Let_def)

lemma mix_channels_nth:
  "i < length out \<Longrightarrow>
     mix_channels n ad w out ! i =
       (if i < n
        then bound 1 (- 1) (throttle ad * (w ! i ! 0) + pitch ad * (w ! i ! 1)
                             + roll ad * (w ! i ! 2) + yaw ad * (w ! i ! 3))
        else out ! i)"
  by (induction n) (auto simp: Let_def mix_channels_length nth_list_update less_Suc_eq)

lemma mix_channels_all:
  "length out = n \<Longrightarrow>
     mix_channels n ad w out =
       map (\<lambda>i. bound 1 (- 1) (throttle ad * (w ! i ! 0) + pitch ad * (w ! i ! 1)
                                + roll ad * (w ! i ! 2) + yaw ad * (w ! i ! 3))) [0..<n]"
  by (rule nth_equalityI) (simp_all add: mix_channels_length mix_channels_nth)

text \<open>
  C5. For every actuator demand and every weight matrix, \<open>vUpdateOutputs\<close> sets each of
  the eight channels to the sum
  \<open>throttle * w[i][0] + pitch * w[i][1] + roll * w[i][2] + yaw * w[i][3]\<close> clamped to the
  interval from -1 to 1, and changes nothing else. A channel whose sum lies in the
  interval is the sum itself, so the output is linear in the demand up to the clamping,
  and every channel lies between -1 and 1 after the stage.
\<close>

theorem output_mixer_bounded:
  assumes "length (pwm_out (control_reference s)) = 8"
    and "ad = actuator_desired (control_reference s)"
    and "w = weights (output_mixer s)"
  shows "vUpdateOutputs s =
           s\<lparr>control_reference := (control_reference s)
               \<lparr>pwm_out := map (\<lambda>i. bound 1 (- 1)
                    (throttle ad * (w ! i ! 0) + pitch ad * (w ! i ! 1)
                      + roll ad * (w ! i ! 2) + yaw ad * (w ! i ! 3))) [0..<8]\<rparr>\<rparr>
       \<and> (\<forall>i<8. pwm_out (control_reference (vUpdateOutputs s)) ! i =
              max (- 1) (min 1 (throttle ad * (w ! i ! 0) + pitch ad * (w ! i ! 1)
                                  + roll ad * (w ! i ! 2) + yaw ad * (w ! i ! 3))))
       \<and> (\<forall>i<8. - 1 \<le> throttle ad * (w ! i ! 0) + pitch ad * (w ! i ! 1)
                        + roll ad * (w ! i ! 2) + yaw ad * (w ! i ! 3)
                \<and> throttle ad * (w ! i ! 0) + pitch ad * (w ! i ! 1)
                        + roll ad * (w ! i ! 2) + yaw ad * (w ! i ! 3) \<le> 1
            \<longrightarrow> pwm_out (control_reference (vUpdateOutputs s)) ! i =
                  throttle ad * (w ! i ! 0) + pitch ad * (w ! i ! 1)
                    + roll ad * (w ! i ! 2) + yaw ad * (w ! i ! 3))
       \<and> length (pwm_out (control_reference (vUpdateOutputs s))) = 8
       \<and> (\<forall>v \<in> set (pwm_out (control_reference (vUpdateOutputs s))). - 1 \<le> v \<and> v \<le> 1)"
proof -
  let ?sum = "\<lambda>i. throttle ad * (w ! i ! 0) + pitch ad * (w ! i ! 1)
                      + roll ad * (w ! i ! 2) + yaw ad * (w ! i ! 3)"
  have eq: "vUpdateOutputs s =
           s\<lparr>control_reference := (control_reference s)
               \<lparr>pwm_out := map (\<lambda>i. bound 1 (- 1) (?sum i)) [0..<8]\<rparr>\<rparr>"
    using mix_channels_all [OF assms(1), of ad w]
    by (simp add: vUpdateOutputs_def Let_def assms(2,3))
  have out: "pwm_out (control_reference (vUpdateOutputs s))
               = map (\<lambda>i. bound 1 (- 1) (?sum i)) [0..<8]"
    by (simp add: eq)
  have nth: "\<forall>i<8. pwm_out (control_reference (vUpdateOutputs s)) ! i = bound 1 (- 1) (?sum i)"
    by (simp add: out)
  have a: "\<forall>i<8. pwm_out (control_reference (vUpdateOutputs s)) ! i
                    = max (- 1) (min 1 (?sum i))"
    using nth by (simp add: bound_def max_def min_def)
  have b: "\<forall>i<8. - 1 \<le> ?sum i \<and> ?sum i \<le> 1
            \<longrightarrow> pwm_out (control_reference (vUpdateOutputs s)) ! i = ?sum i"
    using nth by (simp add: bound_inside)
  have c: "length (pwm_out (control_reference (vUpdateOutputs s))) = 8"
    by (simp add: out)
  have d: "\<forall>v \<in> set (pwm_out (control_reference (vUpdateOutputs s))). - 1 \<le> v \<and> v \<le> 1"
    unfolding out using bound_unit by auto
  show ?thesis using eq a b c d by blast
qed

theorem output_mixer_bounded_witness:
  "length (pwm_out (control_reference mixer_example_state)) = 8
   \<and> weights (output_mixer mixer_example_state) ! 0 = [1, 0, 0, 0]
   \<and> throttle (actuator_desired (control_reference mixer_example_state)) = 1 / 2
   \<and> pwm_out (control_reference (vUpdateOutputs mixer_example_state)) ! 0 = 1 / 2"
proof -
  have l: "length (pwm_out (control_reference mixer_example_state)) = 8"
    by (simp add: mixer_example_state_def example_state_def)
  have w: "weights (output_mixer mixer_example_state) ! 0 = [1, 0, 0, 0]"
    by (simp add: mixer_example_state_def)
  have t: "actuator_desired (control_reference mixer_example_state)
             = \<lparr>throttle = 1 / 2, pitch = 0, roll = 0, yaw = 0\<rparr>"
    by (simp add: mixer_example_state_def)
  let ?ad = "actuator_desired (control_reference mixer_example_state)"
  let ?w = "weights (output_mixer mixer_example_state)"
  from output_mixer_bounded [OF l refl refl]
  have "\<forall>i<8. pwm_out (control_reference (vUpdateOutputs mixer_example_state)) ! i =
              max (- 1) (min 1 (throttle ?ad * (?w ! i ! 0) + pitch ?ad * (?w ! i ! 1)
                                  + roll ?ad * (?w ! i ! 2) + yaw ?ad * (?w ! i ! 3)))"
    by blast
  then have "pwm_out (control_reference (vUpdateOutputs mixer_example_state)) ! 0 =
              max (- 1) (min 1 (throttle ?ad * (?w ! 0 ! 0) + pitch ?ad * (?w ! 0 ! 1)
                                  + roll ?ad * (?w ! 0 ! 2) + yaw ?ad * (?w ! 0 ! 3)))"
    by simp
  then have "pwm_out (control_reference (vUpdateOutputs mixer_example_state)) ! 0 = 1 / 2"
    by (simp add: w t)
  then show ?thesis using l w t by simp
qed

section \<open>The rate stage\<close>

lemma rate_filter_fields:
  "rate_t1 (rate_filter omega_m s) = 2 / 10 * vec_x omega_m + 8 / 10 * rate_t1 s"
  "rate_t2 (rate_filter omega_m s) = 2 / 10 * vec_y omega_m + 8 / 10 * rate_t2 s"
  "rate_t3 (rate_filter omega_m s) = 2 / 10 * vec_z omega_m + 8 / 10 * rate_t3 s"
  "control_reference (rate_filter omega_m s) = control_reference s"
  "control_data (rate_filter omega_m s) = control_data s"
  by (simp_all add: rate_filter_def Let_def)

lemma rate_stage_result:
  "vRateControl fPIUpdate omega_m dt s =
     (let s1 = rate_filter omega_m s;
          e = rate_error s1;
          cd = control_data s;
          r0 = fPIUpdate (cd ! rate_controller 0) (vec_x e) dt;
          r1 = fPIUpdate (cd ! rate_controller 1) (vec_y e) dt;
          r2 = fPIUpdate (cd ! rate_controller 2) (vec_z e) dt
      in s1\<lparr>control_data := cd[rate_controller 0 := snd r0, rate_controller 1 := snd r1,
                                 rate_controller 2 := snd r2],
             control_reference := (control_reference s)
               \<lparr>actuator_desired := (actuator_desired (control_reference s))
                  \<lparr>pitch := bound 1 (- 1) (fst r0),
                   roll := bound 1 (- 1) (fst r1),
                   yaw := bound 1 (- 1) (fst r2)\<rparr>\<rparr>\<rparr>)"
  by (simp add: vRateControl_def Let_def rate_filter_fields rate_controller_def
      split: prod.splits)

text \<open>
  C4. For every rate measurement and sampling time, each of the three filter values
  becomes \<open>0.2 * new + 0.8 * old\<close> for its own component of the measurement. The
  references are stored by axis of control: \<open>rate_reference.x\<close> is the pitch rate
  reference (it comes from the pitch stick and the pitch limits, and from the pitch
  error of the attitude stage), \<open>rate_reference.y\<close> the roll rate reference and
  \<open>rate_reference.z\<close> the yaw rate reference. The pitch rate is the rate about the
  second body axis, filtered in \<open>t2\<close>; the roll rate is the rate about the first,
  filtered in \<open>t1\<close>; the yaw rate is the third, filtered in \<open>t3\<close>. For each of the three
  axes the error is the reference of the axis minus the filtered measurement of the same
  axis, and the bounded output of its controller is the demand of that axis: pitch,
  roll and yaw each lie between -1 and 1. The throttle demand is not written.
\<close>

theorem rate_stage_outputs:
  assumes "s' = vRateControl fPIUpdate omega_m dt s"
    and "ref = rate_reference (control_reference s)"
    and "cd = control_data s"
  shows "rate_t1 s' = 2 / 10 * vec_x omega_m + 8 / 10 * rate_t1 s
       \<and> rate_t2 s' = 2 / 10 * vec_y omega_m + 8 / 10 * rate_t2 s
       \<and> rate_t3 s' = 2 / 10 * vec_z omega_m + 8 / 10 * rate_t3 s
       \<and> rate_error (rate_filter omega_m s) =
            \<lparr>vec_x = vec_x ref - rate_t2 s', vec_y = vec_y ref - rate_t1 s',
             vec_z = vec_z ref - rate_t3 s'\<rparr>
       \<and> pitch (actuator_desired (control_reference s')) =
            bound 1 (- 1) (fst (fPIUpdate (cd ! rate_controller 0) (vec_x ref - rate_t2 s') dt))
       \<and> roll (actuator_desired (control_reference s')) =
            bound 1 (- 1) (fst (fPIUpdate (cd ! rate_controller 1) (vec_y ref - rate_t1 s') dt))
       \<and> yaw (actuator_desired (control_reference s')) =
            bound 1 (- 1) (fst (fPIUpdate (cd ! rate_controller 2) (vec_z ref - rate_t3 s') dt))
       \<and> - 1 \<le> pitch (actuator_desired (control_reference s'))
       \<and> pitch (actuator_desired (control_reference s')) \<le> 1
       \<and> - 1 \<le> roll (actuator_desired (control_reference s'))
       \<and> roll (actuator_desired (control_reference s')) \<le> 1
       \<and> - 1 \<le> yaw (actuator_desired (control_reference s'))
       \<and> yaw (actuator_desired (control_reference s')) \<le> 1
       \<and> throttle (actuator_desired (control_reference s'))
           = throttle (actuator_desired (control_reference s))"
  unfolding assms rate_stage_result
  by (simp add: Let_def rate_filter_fields rate_error_def bound_unit)

lemma rate_example_gain:
  "k < 3 \<Longrightarrow> control_data rate_example_state ! rate_controller k = [1, 0, 0, 0]"
proof -
  assume "k < 3"
  then have "k = 0 \<or> k = 1 \<or> k = 2" by auto
  then show ?thesis
    by (auto simp add: rate_example_state_def example_state_def rate_controller_def)
qed

lemma rate_example_fields:
  "rate_reference (control_reference rate_example_state) = zero_vector3f"
  "rate_t1 rate_example_state = 0" "rate_t2 rate_example_state = 0"
  "rate_t3 rate_example_state = 0"
  by (simp_all add: rate_example_state_def example_state_def rate_controller_def)

lemma example_pi_gain: "fst (example_pi [1, 0, 0, 0] e dt) = e"
  by (simp add: example_pi_def)

theorem rate_stage_outputs_witness:
  "pitch (actuator_desired (control_reference
      (vRateControl example_pi x_rate_omega (1 / 100) rate_example_state))) = 0
   \<and> roll (actuator_desired (control_reference
      (vRateControl example_pi x_rate_omega (1 / 100) rate_example_state))) = - (1 / 5)
   \<and> rate_t1 (vRateControl example_pi x_rate_omega (1 / 100) rate_example_state) = 1 / 5"
proof -
  let ?s' = "vRateControl example_pi x_rate_omega (1 / 100) rate_example_state"
  note r = rate_stage_outputs [OF refl refl refl, of example_pi x_rate_omega "1 / 100"
      rate_example_state]
  have t: "rate_t1 ?s' = 1 / 5" "rate_t2 ?s' = 0"
    using r by (simp_all add: rate_example_fields x_rate_omega_def)
  have "pitch (actuator_desired (control_reference ?s')) = bound 1 (- 1) 0"
    using r by (simp add: t rate_example_fields rate_example_gain example_pi_gain
        zero_vector3f_def)
  moreover have "roll (actuator_desired (control_reference ?s')) = bound 1 (- 1) (- (1 / 5))"
    using r by (simp add: t rate_example_fields rate_example_gain example_pi_gain
        zero_vector3f_def)
  ultimately show ?thesis using t by (simp add: bound_def)
qed

section \<open>The attitude stage\<close>

text \<open>
  What the stage computes: the error given to the first controller is
  \<open>attitude_reference.x\<close> minus the \<open>asinf\<close> angle, the error given to the second is
  \<open>attitude_reference.x\<close> plus the \<open>atan2f\<close> angle; the two outputs are bounded by the
  attitude rate limits and \<open>rate_reference.z\<close> is not written. The stage never reads
  \<open>attitude_reference.y\<close>.
\<close>

lemma attitude_stage_result:
  "vAttitudeControl fPIUpdate attitude_m control_yaw dt s =
     (let e = attitude_err (control_reference s) attitude_m;
          cd = control_data s;
          lim = control_limits s;
          r0 = fPIUpdate (cd ! attitude_controller 0) (vec_y e) dt;
          r1 = fPIUpdate (cd ! attitude_controller 1) (vec_x e) dt
      in s\<lparr>control_data := cd[attitude_controller 0 := snd r0, attitude_controller 1 := snd r1],
            control_reference := (control_reference s)
              \<lparr>rate_reference := (rate_reference (control_reference s))
                 \<lparr>vec_x := bound (max_rate_attitude_pitch lim) (- max_rate_attitude_pitch lim)
                             (fst r0),
                  vec_y := bound (max_rate_attitude_roll lim) (- max_rate_attitude_roll lim)
                             (fst r1)\<rparr>\<rparr>\<rparr>)"
  by (simp add: vAttitudeControl_def Let_def attitude_controller_def split: prod.splits)

lemma attitude_stage_bounded:
  assumes "0 \<le> max_rate_attitude_pitch (control_limits s)"
    and "0 \<le> max_rate_attitude_roll (control_limits s)"
    and "r = rate_reference (control_reference (vAttitudeControl fPIUpdate attitude_m cy dt s))"
  shows "- max_rate_attitude_pitch (control_limits s) \<le> vec_x r
       \<and> vec_x r \<le> max_rate_attitude_pitch (control_limits s)
       \<and> - max_rate_attitude_roll (control_limits s) \<le> vec_y r
       \<and> vec_y r \<le> max_rate_attitude_roll (control_limits s)
       \<and> vec_z r = vec_z (rate_reference (control_reference s))"
  using assms(1,2) unfolding assms(3) attitude_stage_result
  by (simp add: Let_def bound_range)

lemma attitude_stage_ignores_roll_reference:
  "rate_reference (control_reference (vAttitudeControl fPIUpdate attitude_m cy dt
      (s\<lparr>control_reference := (control_reference s)
           \<lparr>attitude_reference := (attitude_reference (control_reference s))\<lparr>vec_y := a\<rparr>\<rparr>\<rparr>)))
   = rate_reference (control_reference (vAttitudeControl fPIUpdate attitude_m cy dt s))"
  by (simp add: attitude_stage_result Let_def attitude_err_def)

lemma measured_level:
  "measured_about_x identity_quaternion = 0" "measured_about_y identity_quaternion = 0"
  by (simp_all add: measured_about_x_def measured_about_y_def identity_quaternion_def
      atan2f_def asinf_def)

lemma roll_reference_fields:
  "attitude_reference (control_reference roll_reference_state)
     = \<lparr>vec_x = 0, vec_y = 3 / 10, vec_z = 0\<rparr>"
  "control_data roll_reference_state ! attitude_controller 0 = [1, 0, 0, 0]"
  "control_data roll_reference_state ! attitude_controller (Suc 0) = [1, 0, 0, 0]"
  "max_rate_attitude_roll (control_limits roll_reference_state) = 10"
  "max_rate_attitude_pitch (control_limits roll_reference_state) = 10"
  by (simp_all add: roll_reference_state_def example_state_def attitude_controller_def)

text \<open>
  C3 at a concrete input. With level attitude (identity quaternion, both measured angles
  0), a pitch reference of 0 and a roll reference of 0.3, the error about the first
  axis is 0: it is computed from \<open>attitude_reference.x\<close>, the pitch reference, and not
  from the roll reference \<open>attitude_reference.y\<close>. With unit gain the second rate
  reference is 0, where the roll reference minus the measured roll angle gives 0.3.
\<close>

theorem attitude_roll_error_at_level:
  "vec_y (attitude_reference (control_reference roll_reference_state)) = 3 / 10
   \<and> measured_about_x identity_quaternion = 0
   \<and> vec_x (attitude_err (control_reference roll_reference_state) identity_quaternion) = 0
   \<and> vec_y (rate_reference (control_reference
        (vAttitudeControl example_pi identity_quaternion False (1 / 100)
           roll_reference_state))) = 0
   \<and> bound (max_rate_attitude_roll (control_limits roll_reference_state))
            (- max_rate_attitude_roll (control_limits roll_reference_state))
        (fst (example_pi (control_data roll_reference_state ! attitude_controller 1)
           (vec_y (attitude_reference (control_reference roll_reference_state))
              - measured_about_x identity_quaternion) (1 / 100))) = 3 / 10"
proof -
  have e: "vec_x (attitude_err (control_reference roll_reference_state) identity_quaternion) = 0"
    by (simp add: attitude_err_def roll_reference_fields measured_level)
  have r: "vec_y (rate_reference (control_reference
        (vAttitudeControl example_pi identity_quaternion False (1 / 100)
           roll_reference_state))) = 0"
    by (simp add: attitude_stage_result Let_def e roll_reference_fields example_pi_gain bound_def)
  show ?thesis
    by (simp add: e r roll_reference_fields measured_level example_pi_gain bound_def)
qed


section \<open>The parameter accessors\<close>

lemma copy_floats_length: "length (copy_floats n src dst) = length dst"
  by (induction n) simp_all

lemma copy_floats_nth:
  "j < length dst \<Longrightarrow> copy_floats n src dst ! j = (if j < n then src ! j else dst ! j)"
  by (induction n) (auto simp: copy_floats_length nth_list_update less_Suc_eq)

lemma copy_controllers_length: "length (copy_controllers n src dst) = length dst"
  by (induction n) (simp_all add: Let_def)

lemma copy_controllers_nth:
  "i < length dst \<Longrightarrow>
     copy_controllers n src dst ! i =
       (if i < n then copy_floats 3 (src ! i) (dst ! i) else dst ! i)"
  by (induction n) (auto simp: Let_def copy_controllers_length nth_list_update less_Suc_eq)

lemma copy_floats_all:
  assumes "length src = 3" and "length dst = 3"
  shows "copy_floats 3 src dst = src"
  using assms by (intro nth_equalityI) (simp_all add: copy_floats_length copy_floats_nth)

lemma roundtrip_nth:
  assumes "i < n" and "n \<le> length cd" and "n \<le> length out" and "j < 3"
    and "3 \<le> length (cd ! i)" and "3 \<le> length (out ! i)"
  shows "copy_controllers n (copy_controllers n p cd) out ! i ! j = p ! i ! j"
  using assms by (simp add: copy_controllers_nth copy_controllers_length copy_floats_nth
      copy_floats_length)

text \<open>
  C10. For controller data, parameters \<open>p\<close> and a destination of
  \<open>CONTROL_NUMBER_OF_CONTROLLERS\<close> records each, with three floats in every parameter
  record and at least three in every controller record: \<open>SetControlParameters p\<close>
  followed by \<open>GetControlParameters\<close> gives back the three floats of every record of
  \<open>p\<close>, so the structure read is \<open>p\<close> itself. \<open>SetControlParameters\<close> puts the three
  floats of \<open>p\<close> at the front of every controller record and keeps the floats behind
  them.
\<close>

theorem set_get_roundtrip:
  assumes "length (control_data s) = CONTROL_NUMBER_OF_CONTROLLERS"
    and "length p = CONTROL_NUMBER_OF_CONTROLLERS"
    and "length out = CONTROL_NUMBER_OF_CONTROLLERS"
    and "\<forall>i < CONTROL_NUMBER_OF_CONTROLLERS.
           3 \<le> length (control_data s ! i) \<and> length (p ! i) = 3 \<and> length (out ! i) = 3"
  shows "(\<forall>i < CONTROL_NUMBER_OF_CONTROLLERS. \<forall>j < 3.
            GetControlParameters (SetControlParameters p s) out ! i ! j = p ! i ! j)
       \<and> GetControlParameters (SetControlParameters p s) out = p
       \<and> (\<forall>i < CONTROL_NUMBER_OF_CONTROLLERS.
            take 3 (control_data (SetControlParameters p s) ! i) = p ! i
            \<and> drop 3 (control_data (SetControlParameters p s) ! i)
                = drop 3 (control_data s ! i))"
proof -
  let ?n = CONTROL_NUMBER_OF_CONTROLLERS
  let ?cd = "copy_controllers ?n p (control_data s)"
  have nth: "\<forall>i < ?n. \<forall>j < 3. copy_controllers ?n ?cd out ! i ! j = p ! i ! j"
    using assms by (simp add: roundtrip_nth)
  have len: "\<forall>i < ?n. length (copy_controllers ?n ?cd out ! i) = 3"
    using assms by (simp add: copy_controllers_nth copy_floats_length)
  have "\<forall>i < ?n. copy_controllers ?n ?cd out ! i = p ! i"
  proof (intro allI impI)
    fix i assume i: "i < ?n"
    show "copy_controllers ?n ?cd out ! i = p ! i"
    proof (rule nth_equalityI)
      show "length (copy_controllers ?n ?cd out ! i) = length (p ! i)"
        using len i assms(4) by simp
      fix j assume "j < length (copy_controllers ?n ?cd out ! i)"
      then have "j < 3" using len i by simp
      then show "copy_controllers ?n ?cd out ! i ! j = p ! i ! j" using nth i by simp
    qed
  qed
  then have eq: "copy_controllers ?n ?cd out = p"
    using assms(2,3) by (intro nth_equalityI) (simp_all add: copy_controllers_length)
  have td: "\<forall>i < ?n. take 3 (?cd ! i) = p ! i \<and> drop 3 (?cd ! i) = drop 3 (control_data s ! i)"
  proof (intro allI impI)
    fix i assume i: "i < ?n"
    then have c: "?cd ! i = copy_floats 3 (p ! i) (control_data s ! i)"
      using assms(1) by (simp add: copy_controllers_nth)
    have l: "3 \<le> length (control_data s ! i)" "length (p ! i) = 3" using assms(4) i by simp_all
    have "take 3 (?cd ! i) = p ! i"
      using l by (intro nth_equalityI) (simp_all add: c copy_floats_length copy_floats_nth)
    moreover have "drop 3 (?cd ! i) = drop 3 (control_data s ! i)"
      using l by (intro nth_equalityI) (simp_all add: c copy_floats_length copy_floats_nth)
    ultimately show "take 3 (?cd ! i) = p ! i \<and> drop 3 (?cd ! i) = drop 3 (control_data s ! i)"
      by simp
  qed
  show ?thesis
    using nth eq td by (simp add: GetControlParameters_def SetControlParameters_def)
qed

theorem set_get_roundtrip_witness:
  "length (control_data example_state) = CONTROL_NUMBER_OF_CONTROLLERS
   \<and> GetControlParameters (SetControlParameters example_parameters example_state)
        blank_parameters = example_parameters
   \<and> control_data (SetControlParameters example_parameters example_state) ! 0 = [3, 2, 1, 0]"
proof -
  have a: "length (control_data example_state) = CONTROL_NUMBER_OF_CONTROLLERS"
    "length example_parameters = CONTROL_NUMBER_OF_CONTROLLERS"
    "length blank_parameters = CONTROL_NUMBER_OF_CONTROLLERS"
    by (simp_all add: example_state_def example_parameters_def blank_parameters_def
        CONTROL_NUMBER_OF_CONTROLLERS_def)
  have b: "\<forall>i < CONTROL_NUMBER_OF_CONTROLLERS.
           3 \<le> length (control_data example_state ! i) \<and> length (example_parameters ! i) = 3
           \<and> length (blank_parameters ! i) = 3"
    by (simp add: example_state_def example_parameters_def blank_parameters_def
        CONTROL_NUMBER_OF_CONTROLLERS_def)
  note r = set_get_roundtrip [OF a b]
  have g: "GetControlParameters (SetControlParameters example_parameters example_state)
        blank_parameters = example_parameters"
    using r by blast
  have "take 3 (control_data (SetControlParameters example_parameters example_state) ! 0)
          = example_parameters ! 0
        \<and> drop 3 (control_data (SetControlParameters example_parameters example_state) ! 0)
          = drop 3 (control_data example_state ! 0)"
    using r by (simp add: CONTROL_NUMBER_OF_CONTROLLERS_def)
  then have "take 3 (control_data (SetControlParameters example_parameters example_state) ! 0)
               @ drop 3 (control_data (SetControlParameters example_parameters example_state) ! 0)
             = [3, 2, 1, 0]"
    by (simp add: example_parameters_def example_state_def)
  then have "control_data (SetControlParameters example_parameters example_state) ! 0
               = [3, 2, 1, 0]"
    by (simp only: append_take_drop_id)
  then show ?thesis using a(1) g by simp
qed

section \<open>Loading the parameters at startup\<close>

lemma flash_load_result:
  "vReadControlParametersFromFlash flash s =
     s\<lparr>arm_settings := snd (read_CONA flash (arm_settings s)),
       flash_save_control_parameters := snd (read_CONP flash (flash_save_control_parameters s)),
       control_data :=
         (if fst (read_CONP flash (flash_save_control_parameters s)) = FLASHSAVE_OK
          then copy_controllers CONTROL_NUMBER_OF_CONTROLLERS
                 (snd (read_CONP flash (flash_save_control_parameters s))) (control_data s)
          else control_data s),
       control_limits := snd (read_CONL flash (control_limits s)),
       output_mixer := snd (read_CONM flash (output_mixer s))\<rparr>"
  by (simp add: vReadControlParametersFromFlash_def SetControlParameters_def Let_def
      split: prod.splits)

text \<open>
  C7, as the code has it, for every behaviour of the reads. The controller parameters
  are set from the block read only if its read reports success; when it fails the
  controller records keep what they held. The arm settings, the limits and the mixer
  are the buffers of their reads and the status of these three reads is not looked at:
  after the load each of them holds what its read left in the buffer, so it keeps its
  former value after a failed read exactly when that read left the buffer as it was.
  \<open>ControlInit\<close> with a working output driver never halts, whatever the reads do. The
  buffers it hands to the reads hold zero for the limits and the mixer weights and, for
  the arm settings, 0, 0, no gesture, a stick time of 5 and a zero throttle timeout of
  30; the controller records are all zero when the read of their block fails.
\<close>

theorem startup_parameter_load:
  assumes "s' = vReadControlParametersFromFlash flash s"
    and "r = ControlInit True flash s0"
    and "rp = read_CONP flash (flash_save_control_parameters s)"
  shows "arm_settings s' = snd (read_CONA flash (arm_settings s))
       \<and> control_limits s' = snd (read_CONL flash (control_limits s))
       \<and> output_mixer s' = snd (read_CONM flash (output_mixer s))
       \<and> (arm_settings s' = arm_settings s
            \<longleftrightarrow> snd (read_CONA flash (arm_settings s)) = arm_settings s)
       \<and> (control_limits s' = control_limits s
            \<longleftrightarrow> snd (read_CONL flash (control_limits s)) = control_limits s)
       \<and> (output_mixer s' = output_mixer s
            \<longleftrightarrow> snd (read_CONM flash (output_mixer s)) = output_mixer s)
       \<and> (fst rp \<noteq> FLASHSAVE_OK \<longrightarrow> control_data s' = control_data s)
       \<and> (fst rp = FLASHSAVE_OK \<longrightarrow>
            control_data s' = control_data (SetControlParameters (snd rp) s))
       \<and> (\<exists>s1. r = Inr s1
             \<and> arm_settings s1 =
                 snd (read_CONA flash
                   \<lparr>stick_threshold = 0, armed_min_throttle = 0, stick_direction = STICK_NONE,
                    arm_stick_time = 5, arm_zero_throttle_timeout = 30\<rparr>)
             \<and> control_limits s1 =
                 snd (read_CONL flash
                   \<lparr>max_angle_pitch = 0, max_angle_roll = 0, max_rate_pitch = 0,
                    max_rate_roll = 0, max_rate_yaw = 0, max_rate_attitude_pitch = 0,
                    max_rate_attitude_roll = 0\<rparr>)
             \<and> output_mixer s1 =
                 snd (read_CONM flash
                   \<lparr>weights = map (map (\<lambda>_. 0)) (weights (output_mixer s0))\<rparr>)
             \<and> (fst (read_CONP flash (flash_save_control_parameters s0)) \<noteq> FLASHSAVE_OK
                  \<longrightarrow> control_data s1 = map (map (\<lambda>_. 0)) (control_data s0)))"
proof -
  have a: "arm_settings s' = snd (read_CONA flash (arm_settings s))
       \<and> control_limits s' = snd (read_CONL flash (control_limits s))
       \<and> output_mixer s' = snd (read_CONM flash (output_mixer s))"
    unfolding assms(1) flash_load_result by simp
  have b: "(fst rp \<noteq> FLASHSAVE_OK \<longrightarrow> control_data s' = control_data s)
       \<and> (fst rp = FLASHSAVE_OK \<longrightarrow>
            control_data s' = control_data (SetControlParameters (snd rp) s))"
    unfolding assms(1,3) flash_load_result by (simp add: SetControlParameters_def)
  have c: "\<exists>s1. r = Inr s1
             \<and> arm_settings s1 =
                 snd (read_CONA flash
                   \<lparr>stick_threshold = 0, armed_min_throttle = 0, stick_direction = STICK_NONE,
                    arm_stick_time = 5, arm_zero_throttle_timeout = 30\<rparr>)
             \<and> control_limits s1 =
                 snd (read_CONL flash
                   \<lparr>max_angle_pitch = 0, max_angle_roll = 0, max_rate_pitch = 0,
                    max_rate_roll = 0, max_rate_yaw = 0, max_rate_attitude_pitch = 0,
                    max_rate_attitude_roll = 0\<rparr>)
             \<and> output_mixer s1 =
                 snd (read_CONM flash
                   \<lparr>weights = map (map (\<lambda>_. 0)) (weights (output_mixer s0))\<rparr>)
             \<and> (fst (read_CONP flash (flash_save_control_parameters s0)) \<noteq> FLASHSAVE_OK
                  \<longrightarrow> control_data s1 = map (map (\<lambda>_. 0)) (control_data s0))"
    unfolding assms(2) by (simp add: ControlInit_def Let_def flash_load_result)
  show ?thesis using a b c by simp
qed

lemma init_without_store:
  "ControlInit True keeping_reads example_state = Inr startup_defaults_state"
  by (simp add: ControlInit_def Let_def flash_load_result keeping_reads_def
      startup_defaults_state_def example_state_def zero_vector3f_def)

theorem startup_parameter_load_witness:
  "fst (read_CONP gains_only_reads (flash_save_control_parameters startup_defaults_state))
     = FLASHSAVE_OK
   \<and> arm_settings (vReadControlParametersFromFlash gains_only_reads startup_defaults_state)
       = arm_settings startup_defaults_state
   \<and> control_data (vReadControlParametersFromFlash gains_only_reads startup_defaults_state)
       = control_data (SetControlParameters example_parameters startup_defaults_state)
   \<and> fst (read_CONP keeping_reads (flash_save_control_parameters startup_defaults_state))
       \<noteq> FLASHSAVE_OK
   \<and> control_data (vReadControlParametersFromFlash keeping_reads startup_defaults_state)
       = control_data startup_defaults_state"
proof -
  have g: "read_CONA gains_only_reads = (\<lambda>buf. (FLASHSAVE_ERROR, buf))"
    "read_CONP gains_only_reads = (\<lambda>buf. (FLASHSAVE_OK, example_parameters))"
    by (simp_all add: gains_only_reads_def keeping_reads_def)
  have k: "read_CONP keeping_reads = (\<lambda>buf. (FLASHSAVE_ERROR, buf))"
    by (simp add: keeping_reads_def)
  note r1 = startup_parameter_load [OF refl refl refl, where flash = gains_only_reads
      and s = startup_defaults_state and ?s0.0 = example_state]
  note r2 = startup_parameter_load [OF refl refl refl, where flash = keeping_reads
      and s = startup_defaults_state and ?s0.0 = example_state]
  have "arm_settings (vReadControlParametersFromFlash gains_only_reads startup_defaults_state)
       = arm_settings startup_defaults_state"
    using r1 by (simp add: g)
  moreover have "control_data
        (vReadControlParametersFromFlash gains_only_reads startup_defaults_state)
       = control_data (SetControlParameters example_parameters startup_defaults_state)"
    using r1 by (simp add: g)
  moreover have "control_data
        (vReadControlParametersFromFlash keeping_reads startup_defaults_state)
       = control_data startup_defaults_state"
    using r2 by (simp add: k)
  ultimately show ?thesis by (simp add: g k)
qed

text \<open>
  C7, as the spec states it, fails whatever a failed read does to its buffer. When
  every read fails and leaves its buffer as it was, the arm settings after startup hold
  a stick time of 5 and a zero throttle timeout of 30: what is retained is not
  zero-initialized. When the failing read of the arm settings has written into its
  buffer, the arm settings after the load are not the ones before it: the read has
  failed and its result is in the live configuration all the same.
\<close>

theorem startup_defaults_not_zero_counterexample:
  "fst (read_CONA keeping_reads (arm_settings startup_defaults_state)) \<noteq> FLASHSAVE_OK
   \<and> ControlInit True keeping_reads example_state = Inr startup_defaults_state
   \<and> arm_stick_time (arm_settings startup_defaults_state) = 5
   \<and> arm_zero_throttle_timeout (arm_settings startup_defaults_state) = 30
   \<and> fst (read_CONA clobbering_reads (arm_settings startup_defaults_state)) \<noteq> FLASHSAVE_OK
   \<and> arm_settings (vReadControlParametersFromFlash clobbering_reads startup_defaults_state)
       \<noteq> arm_settings startup_defaults_state"
  by (simp add: init_without_store flash_load_result)
    (simp add: keeping_reads_def clobbering_reads_def startup_defaults_state_def)

end
